theory Spec2Isabelle
  imports Main "HOL-Library.Word"
begin

section \<open>The OAuth2 client of oauth2-frontend\<close>

text \<open>
  A shallow embedding of the class \<open>OAuth2Client\<close> (PKCE helpers, callback handling,
  token exchange, token persistence, logout). JavaScript strings are modelled as
  \<open>string\<close> (code units restricted to 0..255), \<open>string | null\<close> as \<open>string option\<close>,
  the integers \<open>Date.now()\<close> and the HTTP status as \<open>int\<close> and \<open>nat\<close>, a number read from
  JSON as a \<open>number\<close> (an integer that doubles compute exactly, or any other double),
  a \<open>Uint8Array\<close> as a list of 8-bit words, \<open>localStorage\<close> and \<open>sessionStorage\<close> as maps
  from keys to values. A thrown exception is the \<open>Inl\<close> branch of a sum.
\<close>

type_synonym byte = "8 word"

unbundle bit_operations_syntax

subsection \<open>String and number primitives of the language\<close>

text \<open>Digits used by \<open>Number.prototype.toString(radix)\<close>.\<close>

definition digit_char :: "nat \<Rightarrow> char" where
  "digit_char d = ''0123456789abcdefghijklmnopqrstuvwxyz'' ! d"

text \<open>
  \<open>n.toString(radix)\<close> for a non-negative integer \<open>n\<close> and a radix from 2 to 36 (the
  source uses 16, and the default 10): most significant digit first, no leading zero.
\<close>

function nat_toString :: "nat \<Rightarrow> nat \<Rightarrow> string" where
  "nat_toString radix n =
     (if radix < 2 \<or> n < radix then [digit_char n]
      else nat_toString radix (n div radix) @ [digit_char (n mod radix)])"
  by pat_completeness auto
termination
  by (relation "measure (\<lambda>(radix, n). n)") auto

declare nat_toString.simps [simp del]

text \<open>
  \<open>x.toString()\<close> for an integer below \<open>2^53\<close> in magnitude: decimal, with a minus sign.
\<close>

definition Number_toString :: "int \<Rightarrow> string" where
  "Number_toString x =
     (if x < 0 then CHR ''-'' # nat_toString 10 (nat (- x)) else nat_toString 10 (nat x))"

text \<open>\<open>s.padStart(targetLength, padString)\<close>.\<close>

definition padStart :: "nat \<Rightarrow> string \<Rightarrow> string \<Rightarrow> string" where
  "padStart targetLength padString s =
     (if targetLength \<le> length s \<or> padString = [] then s
      else take (targetLength - length s)
             (concat (replicate (targetLength - length s) padString)) @ s)"

text \<open>\<open>s.replace(/a/g, 'b')\<close> for single characters, and \<open>s.replace(/a/g, '')\<close>.\<close>

definition replace_all :: "char \<Rightarrow> char \<Rightarrow> string \<Rightarrow> string" where
  "replace_all a b s = map (\<lambda>c. if c = a then b else c) s"

definition remove_all :: "char \<Rightarrow> string \<Rightarrow> string" where
  "remove_all a s = filter (\<lambda>c. c \<noteq> a) s"

text \<open>
  Truthiness of a \<open>string | null\<close>: \<open>null\<close>, \<open>undefined\<close> and the empty string are
  falsy. (Of the numbers, \<open>0\<close> is falsy.)
\<close>

definition truthy :: "string option \<Rightarrow> bool" where
  "truthy v = (case v of None \<Rightarrow> False | Some s \<Rightarrow> s \<noteq> [])"

subsection \<open>Numbers\<close>

text \<open>
  A number of the language is an IEEE double. The integers of magnitude below \<open>2^53\<close>
  are doubles; a product or a sum of two of them that stays in that range is computed
  exactly, and \<open>toString\<close> prints such an integer in decimal. These are modelled by
  \<open>Integer\<close>, with the arithmetic of \<open>int\<close>. Any other double (a fraction, a magnitude
  from \<open>2^53\<close>, an infinity, \<open>NaN\<close>) is \<open>Double\<close> of its 64 bits, and what the platform
  computes and prints where the rounding of doubles matters is a parameter, a
  \<open>double_ops\<close>: \<open>double_times x y\<close> and \<open>double_plus x y\<close> are the bits of the rounded
  product and sum, \<open>double_toString x\<close> is what \<open>Number.prototype.toString\<close> prints.
\<close>

datatype number = Integer int | Double "64 word"

definition safe_integer :: "int \<Rightarrow> bool" where
  "safe_integer n = (- (2 ^ 53) < n \<and> n < 2 ^ 53)"

record double_ops =
  double_times :: "number \<Rightarrow> number \<Rightarrow> 64 word"
  double_plus :: "number \<Rightarrow> number \<Rightarrow> 64 word"
  double_toString :: "number \<Rightarrow> string"

text \<open>
  Truthiness of a number: \<open>0\<close>, \<open>-0\<close> and \<open>NaN\<close> are falsy. In the bits of a double the
  sign is the top bit; the other 63 bits are all zero for a zero, and above
  \<open>0x7FF0000000000000\<close> for a \<open>NaN\<close>.
\<close>

definition number_truthy :: "number \<Rightarrow> bool" where
  "number_truthy x =
     (case x of
        Integer n \<Rightarrow> n \<noteq> 0
      | Double w \<Rightarrow> take_bit 63 w \<noteq> 0 \<and> take_bit 63 w \<le> 0x7FF0000000000000)"

text \<open>\<open>x * y\<close>, \<open>x + y\<close> and \<open>x.toString()\<close>.\<close>

definition number_times :: "double_ops \<Rightarrow> number \<Rightarrow> number \<Rightarrow> number" where
  "number_times D x y =
     (case (x, y) of
        (Integer a, Integer b) \<Rightarrow>
          if safe_integer a \<and> safe_integer b \<and> safe_integer (a * b) then Integer (a * b)
          else Double (double_times D x y)
      | _ \<Rightarrow> Double (double_times D x y))"

definition number_plus :: "double_ops \<Rightarrow> number \<Rightarrow> number \<Rightarrow> number" where
  "number_plus D x y =
     (case (x, y) of
        (Integer a, Integer b) \<Rightarrow>
          if safe_integer a \<and> safe_integer b \<and> safe_integer (a + b) then Integer (a + b)
          else Double (double_plus D x y)
      | _ \<Rightarrow> Double (double_plus D x y))"

definition number_toString :: "double_ops \<Rightarrow> number \<Rightarrow> string" where
  "number_toString D x =
     (case x of
        Integer a \<Rightarrow> if safe_integer a then Number_toString a else double_toString D x
      | Double w \<Rightarrow> double_toString D x)"

subsection \<open>generateRandomString\<close>

text \<open>
  \<open>crypto.getRandomValues(array)\<close> overwrites every element of the array. The random
  source is a parameter: \<open>rnd i\<close> is the byte it delivers at index \<open>i\<close>.
\<close>

definition getRandomValues :: "(nat \<Rightarrow> byte) \<Rightarrow> byte list \<Rightarrow> byte list" where
  "getRandomValues rnd array = map rnd [0..<length array]"

definition generateRandomString :: "(nat \<Rightarrow> byte) \<Rightarrow> nat \<Rightarrow> string" where
  "generateRandomString rnd len =
     (let array = replicate len (0 :: byte);
          array = getRandomValues rnd array;
          result = concat (map (\<lambda>byte. padStart 2 ''_'' (nat_toString 16 (unat byte))) array)
      in take len result)"

text \<open>The hexadecimal alphabet and the decimal digits.\<close>

definition hex_alphabet :: "char set" where
  "hex_alphabet = set ''0123456789abcdef''"

definition decimal_digits :: "char set" where
  "decimal_digits = set ''0123456789''"

subsection \<open>Errors\<close>

text \<open>
  What the code throws. Every explicit \<open>throw\<close> of the class is \<open>new Error(message)\<close>;
  the platform throws the others: \<open>fetch\<close> rejects with a \<open>TypeError\<close> when the network
  fails, \<open>response.json()\<close> and \<open>JSON.parse\<close> with a \<open>SyntaxError\<close>, \<open>atob\<close> with an
  \<open>InvalidCharacterError\<close>, \<open>toISOString\<close> with a \<open>RangeError\<close>.
\<close>

datatype js_error =
    Error string
  | TypeError
  | SyntaxError
  | RangeError
  | InvalidCharacterError

text \<open>
  The error kinds of the specification, as the errors the code throws for them: the
  kind is carried by the message.
\<close>

definition AuthorizationDenied :: "string \<Rightarrow> js_error" where
  "AuthorizationDenied error = Error (''OAuth error: '' @ error)"

definition MalformedCallback :: js_error where
  "MalformedCallback = Error ''Missing authorization code or state parameter''"

definition StateMismatch :: js_error where
  "StateMismatch = Error ''Invalid state parameter''"

definition MissingVerifier :: js_error where
  "MissingVerifier = Error ''Missing code verifier''"

definition TokenExchangeFailed :: "nat \<Rightarrow> string \<Rightarrow> js_error" where
  "TokenExchangeFailed status errorText =
     Error (''Token exchange failed: '' @ Number_toString (int status) @ '' - '' @ errorText)"

subsection \<open>Data\<close>

text \<open>
  The interfaces \<open>TokenResponse\<close> and \<open>AuthConfig\<close>; an optional field is an option.
  The field \<open>scope\<close> of \<open>AuthConfig\<close> is named \<open>config_scope\<close> here, as a field name
  belongs to one record.
\<close>

record TokenResponse =
  access_token :: string
  token_type :: string
  expires_in :: "number option"
  refresh_token :: "string option"
  scope :: "string option"

record AuthConfig =
  clientId :: string
  redirectUri :: string
  authorizationEndpoint :: string
  tokenEndpoint :: string
  config_scope :: "string option"

text \<open>The private fields of an \<open>OAuth2Client\<close> object.\<close>

record OAuth2Client =
  config :: AuthConfig
  accessToken :: "string option"
  refreshToken :: "string option"

text \<open>
  A request sent with \<open>fetch\<close>: the URL, the method, the content type and the form
  fields of the body (the entries of the \<open>URLSearchParams\<close>, before serialisation).
\<close>

record token_request =
  url :: string
  http_method :: string
  content_type :: string
  form :: "(string \<times> string) list"

text \<open>
  What the class sees of the browser: the two storages, the path of the current
  location, the entries of \<open>new URLSearchParams(window.location.search)\<close> in their
  order, and the requests sent so far.
\<close>

record browser =
  localStorage :: "string \<rightharpoonup> string"
  sessionStorage :: "string \<rightharpoonup> string"
  pathname :: string
  search :: "(string \<times> string) list"
  fetched :: "token_request list"

text \<open>
  A response of the token endpoint: its status, its body as \<open>response.text()\<close> gives it,
  and its body as \<open>response.json()\<close> gives it at the declared type \<open>TokenResponse\<close>
  (\<open>None\<close> when the body is not JSON and \<open>json()\<close> rejects). \<open>response.ok\<close> is true
  for a status from 200 to 299.
\<close>

record http_response =
  status :: nat
  text_body :: string
  json_body :: "TokenResponse option"

definition ok :: "http_response \<Rightarrow> bool" where
  "ok response = (200 \<le> status response \<and> status response \<le> 299)"

text \<open>The outcome of \<open>await fetch(...)\<close>: the promise rejects, or resolves to a response.\<close>

datatype fetch_result = Rejected | Resolved http_response

text \<open>\<open>Storage.getItem\<close>, \<open>setItem\<close>, \<open>removeItem\<close> and \<open>URLSearchParams.get\<close>.\<close>

definition getItem :: "(string \<rightharpoonup> string) \<Rightarrow> string \<Rightarrow> string option" where
  "getItem storage key = storage key"

definition setItem :: "string \<Rightarrow> string \<Rightarrow> (string \<rightharpoonup> string) \<Rightarrow> (string \<rightharpoonup> string)" where
  "setItem key v storage = storage(key \<mapsto> v)"

definition removeItem :: "string \<Rightarrow> (string \<rightharpoonup> string) \<Rightarrow> (string \<rightharpoonup> string)" where
  "removeItem key storage = storage(key := None)"

definition get_param :: "(string \<times> string) list \<Rightarrow> string \<Rightarrow> string option" where
  "get_param urlParams name = map_of urlParams name"

subsection \<open>parseInt\<close>

text \<open>
  \<open>parseInt(string)\<close> without a radix: leading white space is skipped, a sign is read,
  a prefix \<open>0x\<close> or \<open>0X\<close> selects the radix 16 (10 otherwise), and the longest run of
  digits of that radix is the value; with no digit the result is \<open>NaN\<close>, here \<open>None\<close>.
\<close>

definition is_space :: "char \<Rightarrow> bool" where
  "is_space c = (c \<in> set [CHR 0x09, CHR 0x0A, CHR 0x0B, CHR 0x0C, CHR 0x0D, CHR 0x20, CHR 0xA0])"

definition digit_value :: "char \<Rightarrow> nat option" where
  "digit_value c =
     (let k = (of_char c :: nat) in
      if 48 \<le> k \<and> k \<le> 57 then Some (k - 48)
      else if 97 \<le> k \<and> k \<le> 122 then Some (k - 87)
      else if 65 \<le> k \<and> k \<le> 90 then Some (k - 55)
      else None)"

definition is_radix_digit :: "nat \<Rightarrow> char \<Rightarrow> bool" where
  "is_radix_digit R c = (case digit_value c of None \<Rightarrow> False | Some d \<Rightarrow> d < R)"

fun digits_value :: "nat \<Rightarrow> nat \<Rightarrow> string \<Rightarrow> nat" where
  "digits_value R acc [] = acc"
| "digits_value R acc (c # cs) =
     digits_value R (acc * R + (case digit_value c of None \<Rightarrow> 0 | Some d \<Rightarrow> d)) cs"

definition parseInt :: "string \<Rightarrow> int option" where
  "parseInt inputString =
     (let S = dropWhile is_space inputString;
          sign = (if take 1 S = ''-'' then - 1 else 1 :: int);
          S = (if take 1 S = ''+'' \<or> take 1 S = ''-'' then drop 1 S else S);
          stripPrefix = (take 2 S = ''0x'' \<or> take 2 S = ''0X'');
          R = (if stripPrefix then 16 else 10);
          S = (if stripPrefix then drop 2 S else S);
          Z = takeWhile (is_radix_digit R) S
      in if Z = [] then None else Some (sign * int (digits_value R 0 Z)))"

text \<open>\<open>a > b\<close> where \<open>b\<close> may be \<open>NaN\<close>: every comparison with \<open>NaN\<close> is false.\<close>

definition greater_than :: "int \<Rightarrow> int option \<Rightarrow> bool" where
  "greater_than a b = (case b of None \<Rightarrow> False | Some n \<Rightarrow> a > n)"

subsection \<open>logout, loadTokensFromStorage and the constructor\<close>

text \<open>
  A method takes the object and the browser and returns both. \<open>replaceState\<close> to the
  path \<open>/\<close> leaves a location with that path and no query.
\<close>

definition logout :: "OAuth2Client \<times> browser \<Rightarrow> OAuth2Client \<times> browser" where
  "logout w =
     (case w of (this, b) \<Rightarrow>
       let this = this\<lparr>accessToken := None\<rparr>;
           this = this\<lparr>refreshToken := None\<rparr>;
           b = b\<lparr>localStorage := removeItem ''access_token'' (localStorage b)\<rparr>;
           b = b\<lparr>localStorage := removeItem ''refresh_token'' (localStorage b)\<rparr>;
           b = b\<lparr>localStorage := removeItem ''token_expires_at'' (localStorage b)\<rparr>
       in if pathname b = ''/callback''
          then (this, b\<lparr>pathname := ''/'', search := []\<rparr>)
          else (this, b))"

text \<open>\<open>now\<close> is the value of \<open>Date.now()\<close>.\<close>

definition loadTokensFromStorage :: "int \<Rightarrow> OAuth2Client \<times> browser \<Rightarrow> OAuth2Client \<times> browser" where
  "loadTokensFromStorage now w =
     (case w of (this, b) \<Rightarrow>
       let this = this\<lparr>accessToken := getItem (localStorage b) ''access_token''\<rparr>;
           this = this\<lparr>refreshToken := getItem (localStorage b) ''refresh_token''\<rparr>;
           expiresAt = getItem (localStorage b) ''token_expires_at''
       in case expiresAt of
            None \<Rightarrow> (this, b)
          | Some e \<Rightarrow>
              if e \<noteq> [] \<and> greater_than now (parseInt e) then logout (this, b) else (this, b))"

definition constructor :: "AuthConfig \<Rightarrow> int \<Rightarrow> browser \<Rightarrow> OAuth2Client \<times> browser" where
  "constructor cfg now b =
     loadTokensFromStorage now (\<lparr>config = cfg, accessToken = None, refreshToken = None\<rparr>, b)"

definition getAccessToken :: "OAuth2Client \<Rightarrow> string option" where
  "getAccessToken this = accessToken this"

definition isAuthenticated :: "OAuth2Client \<Rightarrow> bool" where
  "isAuthenticated this = (accessToken this \<noteq> None)"

subsection \<open>saveTokensToStorage and exchangeCodeForToken\<close>

definition saveTokensToStorage ::
  "double_ops \<Rightarrow> int \<Rightarrow> TokenResponse \<Rightarrow> browser \<Rightarrow> browser" where
  "saveTokensToStorage D now tokenResponse b =
     (let b = b\<lparr>localStorage := setItem ''access_token'' (access_token tokenResponse) (localStorage b)\<rparr>;
          b = (case refresh_token tokenResponse of
                 None \<Rightarrow> b
               | Some r \<Rightarrow>
                   if r \<noteq> [] then b\<lparr>localStorage := setItem ''refresh_token'' r (localStorage b)\<rparr>
                   else b)
      in case expires_in tokenResponse of
           None \<Rightarrow> b
         | Some s \<Rightarrow>
             if number_truthy s
             then let expiresAt = number_plus D (Integer now) (number_times D s (Integer 1000))
                  in b\<lparr>localStorage :=
                         setItem ''token_expires_at'' (number_toString D expiresAt) (localStorage b)\<rparr>
             else b)"

text \<open>
  \<open>D\<close> is the arithmetic of the platform on doubles, \<open>fr\<close> the outcome of the \<open>fetch\<close>,
  \<open>now\<close> the value of \<open>Date.now()\<close> when the tokens are saved. The \<open>catch\<close> block logs the error and throws it again.
\<close>

definition exchangeCodeForToken ::
  "double_ops \<Rightarrow> fetch_result \<Rightarrow> int \<Rightarrow> string \<Rightarrow> string \<Rightarrow> OAuth2Client \<times> browser
     \<Rightarrow> (js_error + bool) \<times> OAuth2Client \<times> browser" where
  "exchangeCodeForToken D fr now code codeVerifier w =
     (case w of (this, b) \<Rightarrow>
       let body = [(''grant_type'', ''authorization_code''),
                   (''code'', code),
                   (''redirect_uri'', redirectUri (config this)),
                   (''client_id'', clientId (config this)),
                   (''code_verifier'', codeVerifier)];
           b = b\<lparr>fetched := fetched b @
                  [\<lparr>url = tokenEndpoint (config this), http_method = ''POST'',
                    content_type = ''application/x-www-form-urlencoded'', form = body\<rparr>]\<rparr>
       in case fr of
            Rejected \<Rightarrow> (Inl TypeError, this, b)
          | Resolved response \<Rightarrow>
              if \<not> ok response
              then (Inl (Error (''Token exchange failed: ''
                                @ Number_toString (int (status response))
                                @ '' - '' @ text_body response)), this, b)
              else (case json_body response of
                      None \<Rightarrow> (Inl SyntaxError, this, b)
                    | Some tokenResponse \<Rightarrow>
                        let this = this\<lparr>accessToken := Some (access_token tokenResponse)\<rparr>;
                            this = this\<lparr>refreshToken :=
                                     (if truthy (refresh_token tokenResponse)
                                      then refresh_token tokenResponse else None)\<rparr>;
                            b = saveTokensToStorage D now tokenResponse b
                        in (Inr True, this, b)))"

subsection \<open>handleCallback\<close>

definition handleCallback ::
  "double_ops \<Rightarrow> fetch_result \<Rightarrow> int \<Rightarrow> OAuth2Client \<times> browser
     \<Rightarrow> (js_error + bool) \<times> OAuth2Client \<times> browser" where
  "handleCallback D fr now w =
     (case w of (this, b) \<Rightarrow>
       let urlParams = search b;
           code = get_param urlParams ''code'';
           state = get_param urlParams ''state'';
           error = get_param urlParams ''error''
       in if truthy error
          then (Inl (Error (''OAuth error: '' @ (case error of Some e \<Rightarrow> e | None \<Rightarrow> []))), this, b)
          else if \<not> truthy code \<or> \<not> truthy state
          then (Inl (Error ''Missing authorization code or state parameter''), this, b)
          else
            let storedState = getItem (sessionStorage b) ''oauth_state''
            in if state \<noteq> storedState
               then (Inl (Error ''Invalid state parameter''), this, b)
               else
                 let codeVerifier = getItem (sessionStorage b) ''oauth_code_verifier''
                 in if \<not> truthy codeVerifier
                    then (Inl (Error ''Missing code verifier''), this, b)
                    else
                      let b = b\<lparr>sessionStorage := removeItem ''oauth_state'' (sessionStorage b)\<rparr>;
                          b = b\<lparr>sessionStorage :=
                                  removeItem ''oauth_code_verifier'' (sessionStorage b)\<rparr>
                      in exchangeCodeForToken D fr now
                           (case code of Some c \<Rightarrow> c | None \<Rightarrow> [])
                           (case codeVerifier of Some v \<Rightarrow> v | None \<Rightarrow> [])
                           (this, b))"

subsection \<open>generateCodeChallenge\<close>

text \<open>
  \<open>new TextEncoder().encode(s)\<close> gives the UTF-8 bytes of a string: one byte for a code
  unit below 128, two bytes for a code unit from 128 to 255.
\<close>

definition TextEncoder_encode :: "string \<Rightarrow> byte list" where
  "TextEncoder_encode s =
     concat (map (\<lambda>c. let k = (of_char c :: nat)
                      in if k < 128 then [of_nat k]
                         else [of_nat (192 + k div 64), of_nat (128 + k mod 64)]) s)"

text \<open>
  \<open>crypto.subtle.digest('SHA-256', data)\<close> is the hash function SHA-256 of FIPS 180-4 on
  32-bit words: the message is padded to a multiple of 64 bytes, and every block of 16
  words is expanded to a schedule of 64 words and mixed into the hash value in 64 rounds.
  The round constants are the first 32 bits of the fractional parts of the cube roots of
  the first 64 primes, the initial hash value those of the square roots of the first 8
  primes; they are written in decimal.
\<close>

definition rotr :: "nat \<Rightarrow> 32 word \<Rightarrow> 32 word" where
  "rotr n x = drop_bit n x OR push_bit (32 - n) x"

definition Ch :: "32 word \<Rightarrow> 32 word \<Rightarrow> 32 word \<Rightarrow> 32 word" where
  "Ch x y z = (x AND y) XOR (NOT x AND z)"

definition Maj :: "32 word \<Rightarrow> 32 word \<Rightarrow> 32 word \<Rightarrow> 32 word" where
  "Maj x y z = (x AND y) XOR (x AND z) XOR (y AND z)"

definition Sigma0 :: "32 word \<Rightarrow> 32 word" where
  "Sigma0 x = rotr 2 x XOR rotr 13 x XOR rotr 22 x"

definition Sigma1 :: "32 word \<Rightarrow> 32 word" where
  "Sigma1 x = rotr 6 x XOR rotr 11 x XOR rotr 25 x"

definition sigma0 :: "32 word \<Rightarrow> 32 word" where
  "sigma0 x = rotr 7 x XOR rotr 18 x XOR drop_bit 3 x"

definition sigma1 :: "32 word \<Rightarrow> 32 word" where
  "sigma1 x = rotr 17 x XOR rotr 19 x XOR drop_bit 10 x"

definition sha256_K :: "32 word list" where
  "sha256_K =
     [1116352408, 1899447441, 3049323471, 3921009573, 961987163, 1508970993,
      2453635748, 2870763221, 3624381080, 310598401, 607225278, 1426881987,
      1925078388, 2162078206, 2614888103, 3248222580, 3835390401, 4022224774,
      264347078, 604807628, 770255983, 1249150122, 1555081692, 1996064986,
      2554220882, 2821834349, 2952996808, 3210313671, 3336571891, 3584528711,
      113926993, 338241895, 666307205, 773529912, 1294757372, 1396182291,
      1695183700, 1986661051, 2177026350, 2456956037, 2730485921, 2820302411,
      3259730800, 3345764771, 3516065817, 3600352804, 4094571909, 275423344,
      430227734, 506948616, 659060556, 883997877, 958139571, 1322822218,
      1537002063, 1747873779, 1955562222, 2024104815, 2227730452, 2361852424,
      2428436474, 2756734187, 3204031479, 3329325298]"

definition sha256_H0 :: "32 word list" where
  "sha256_H0 =
     [1779033703, 3144134277, 1013904242, 2773480762,
      1359893119, 2600822924, 528734635, 1541459225]"

definition sha256_pad :: "byte list \<Rightarrow> byte list" where
  "sha256_pad m =
     (let l = 8 * length m
      in m @ [0x80] @ replicate ((119 - length m mod 64) mod 64) 0
           @ [of_nat (l div 2 ^ 56), of_nat (l div 2 ^ 48), of_nat (l div 2 ^ 40),
              of_nat (l div 2 ^ 32), of_nat (l div 2 ^ 24), of_nat (l div 2 ^ 16),
              of_nat (l div 2 ^ 8), of_nat l])"

fun be_words :: "byte list \<Rightarrow> 32 word list" where
  "be_words (a # b # c # d # rest) =
     (push_bit 24 (ucast a) OR push_bit 16 (ucast b) OR push_bit 8 (ucast c) OR ucast d)
       # be_words rest"
| "be_words rest = []"

definition sha256_schedule :: "32 word list \<Rightarrow> 32 word list" where
  "sha256_schedule M =
     fold (\<lambda>t W. W @ [sigma1 (W ! (t - 2)) + W ! (t - 7) + sigma0 (W ! (t - 15)) + W ! (t - 16)])
       [16..<64] M"

fun sha256_round :: "32 word \<times> 32 word \<Rightarrow> 32 word list \<Rightarrow> 32 word list" where
  "sha256_round (k, w) [a, b, c, d, e, f, g, h] =
     (let T1 = h + Sigma1 e + Ch e f g + k + w;
          T2 = Sigma0 a + Maj a b c
      in [T1 + T2, a, b, c, d + T1, e, f, g])"
| "sha256_round kw v = v"

definition sha256_compress :: "32 word list \<Rightarrow> 32 word list \<Rightarrow> 32 word list" where
  "sha256_compress H M =
     map2 (+) H (fold sha256_round (zip sha256_K (sha256_schedule M)) H)"

function sha256_blocks :: "32 word list \<Rightarrow> 32 word list \<Rightarrow> 32 word list" where
  "sha256_blocks H ws =
     (if length ws < 16 then H
      else sha256_blocks (sha256_compress H (take 16 ws)) (drop 16 ws))"
  by pat_completeness auto
termination
  by (relation "measure (\<lambda>(H, ws). length ws)") auto

declare sha256_blocks.simps [simp del]

definition be_bytes :: "32 word \<Rightarrow> byte list" where
  "be_bytes w = [ucast (drop_bit 24 w), ucast (drop_bit 16 w), ucast (drop_bit 8 w), ucast w]"

definition SHA_256 :: "byte list \<Rightarrow> byte list" where
  "SHA_256 m = concat (map be_bytes (sha256_blocks sha256_H0 (be_words (sha256_pad m))))"

text \<open>
  \<open>String.fromCharCode(...bytes)\<close> makes the string whose code units are the bytes, and
  \<open>btoa\<close> is the standard base64 encoding of the code units of its argument: three
  bytes give four characters of the alphabet, and a last group of one or two bytes is
  padded with \<open>=\<close>.
\<close>

definition String_fromCharCode :: "byte list \<Rightarrow> string" where
  "String_fromCharCode bytes = map (\<lambda>b. char_of (unat b)) bytes"

definition b64_char :: "nat \<Rightarrow> char" where
  "b64_char i = ''ABCDEFGHIJKLMNOPQRSTUVWXYZabcdefghijklmnopqrstuvwxyz0123456789+/'' ! i"

fun b64_groups :: "nat list \<Rightarrow> string" where
  "b64_groups [] = []"
| "b64_groups [a] =
     [b64_char (a div 4), b64_char ((a mod 4) * 16), CHR ''='', CHR ''='']"
| "b64_groups [a, b] =
     [b64_char (a div 4), b64_char ((a mod 4) * 16 + b div 16),
      b64_char ((b mod 16) * 4), CHR ''='']"
| "b64_groups (a # b # c # rest) =
     [b64_char (a div 4), b64_char ((a mod 4) * 16 + b div 16),
      b64_char ((b mod 16) * 4 + c div 64), b64_char (c mod 64)] @ b64_groups rest"

definition btoa :: "string \<Rightarrow> string" where
  "btoa s = b64_groups (map of_char s)"

definition generateCodeChallenge :: "string \<Rightarrow> string" where
  "generateCodeChallenge codeVerifier =
     (let data = TextEncoder_encode codeVerifier;
          digest = SHA_256 data
      in remove_all (CHR ''='')
           (replace_all (CHR ''/'') (CHR ''_'')
             (replace_all (CHR ''+'') (CHR ''-'') (btoa (String_fromCharCode digest)))))"

subsection \<open>The base64url encoding of the specification\<close>

text \<open>
  The base64url encoding in the words of the specification: standard base64 in which
  \<open>+\<close> becomes \<open>-\<close> and \<open>/\<close> becomes \<open>_\<close>, with the padding, the \<open>=\<close> at the end,
  stripped. Standard base64 is written here from RFC 4648, on bits and apart from \<open>btoa\<close>:
  the bits of three bytes, most significant first, are read as four groups of six bits,
  and each group is the index of a character in the alphabet \<open>A-Z\<close>, \<open>a-z\<close>, \<open>0-9\<close>, \<open>+\<close>,
  \<open>/\<close>; a last group of one byte is filled with four zero bits and gives two characters
  and \<open>==\<close>, a last group of two bytes is filled with two zero bits and gives three
  characters and \<open>=\<close>.
\<close>

definition bits_of_byte :: "byte \<Rightarrow> bool list" where
  "bits_of_byte b = map (bit b) [7, 6, 5, 4, 3, 2, 1, 0]"

fun sextets :: "bool list \<Rightarrow> bool list list" where
  "sextets (b1 # b2 # b3 # b4 # b5 # b6 # rest) = [b1, b2, b3, b4, b5, b6] # sextets rest"
| "sextets rest = []"

definition sextet_index :: "bool list \<Rightarrow> nat" where
  "sextet_index bs = foldl (\<lambda>n b. 2 * n + of_bool b) 0 bs"

definition base64_alphabet :: "nat \<Rightarrow> char" where
  "base64_alphabet i =
     (if i < 26 then char_of (of_char (CHR ''A'') + i)
      else if i < 52 then char_of (of_char (CHR ''a'') + (i - 26))
      else if i < 62 then char_of (of_char (CHR ''0'') + (i - 52))
      else if i = 62 then CHR ''+'' else CHR ''/'')"

definition encode_bits :: "bool list \<Rightarrow> string" where
  "encode_bits bs = map (\<lambda>s. base64_alphabet (sextet_index s)) (sextets bs)"

fun base64_rfc4648 :: "byte list \<Rightarrow> string" where
  "base64_rfc4648 [] = []"
| "base64_rfc4648 [a] =
     encode_bits (bits_of_byte a @ [False, False, False, False]) @ ''==''"
| "base64_rfc4648 [a, b] =
     encode_bits (bits_of_byte a @ bits_of_byte b @ [False, False]) @ ''=''"
| "base64_rfc4648 (a # b # c # rest) =
     encode_bits (bits_of_byte a @ bits_of_byte b @ bits_of_byte c) @ base64_rfc4648 rest"

definition strip_padding :: "string \<Rightarrow> string" where
  "strip_padding s = rev (dropWhile (\<lambda>c. c = CHR ''='') (rev s))"

definition url_safe :: "char \<Rightarrow> char" where
  "url_safe c = (if c = CHR ''+'' then CHR ''-'' else if c = CHR ''/'' then CHR ''_'' else c)"

definition base64url_spec :: "byte list \<Rightarrow> string" where
  "base64url_spec bytes = strip_padding (map url_safe (base64_rfc4648 bytes))"

subsection \<open>getTokenInfo\<close>

text \<open>\<open>s.split(sep)\<close> for a separator of one character, and \<open>array[i]\<close>.\<close>

fun split_on :: "char \<Rightarrow> string \<Rightarrow> string list" where
  "split_on sep [] = [[]]"
| "split_on sep (c # cs) =
     (if c = sep then [] # split_on sep cs
      else (case split_on sep cs of
              [] \<Rightarrow> [[c]]
            | segment # segments \<Rightarrow> (c # segment) # segments))"

definition element_at :: "'a list \<Rightarrow> nat \<Rightarrow> 'a option" where
  "element_at array i = (if i < length array then Some (array ! i) else None)"

text \<open>
  The decoding primitives belong to the platform and are parameters; each of them may
  throw. \<open>'j\<close> is the type of the values \<open>JSON.parse\<close> returns and \<open>'v\<close> the type of the
  values a property read returns: \<open>get_property d name\<close> is \<open>d.name\<close>, \<open>is_truthy\<close> the
  truthiness of such a value, \<open>date_toISOString v\<close> is
  \<open>new Date(v * 1000).toISOString()\<close>, and \<open>of_string\<close> makes a value of a string.
\<close>

record ('j, 'v) platform =
  atob :: "string \<Rightarrow> js_error + string"
  JSON_parse :: "string \<Rightarrow> js_error + 'j"
  get_property :: "'j \<Rightarrow> string \<Rightarrow> js_error + 'v"
  is_truthy :: "'v \<Rightarrow> bool"
  date_toISOString :: "'v \<Rightarrow> js_error + string"
  of_string :: "string \<Rightarrow> 'v"

text \<open>
  The two objects \<open>getTokenInfo\<close> returns: \<open>{token, expires, scope, user}\<close> and
  \<open>{token, type}\<close>.
\<close>

datatype 'v token_info =
    TokenInfo string string 'v 'v
  | BasicInfo string string

text \<open>Sequencing of steps that may throw.\<close>

definition and_then :: "js_error + 'a \<Rightarrow> ('a \<Rightarrow> js_error + 'b) \<Rightarrow> js_error + 'b" where
  "and_then r f = (case r of Inl e \<Rightarrow> Inl e | Inr x \<Rightarrow> f x)"

text \<open>The body of \<open>if (payload) { ... }\<close>: decode the payload and build the object.\<close>

definition decodePayload ::
  "('j, 'v) platform \<Rightarrow> string \<Rightarrow> string \<Rightarrow> js_error + 'v token_info" where
  "decodePayload P token payload =
     and_then (atob P (replace_all (CHR ''_'') (CHR ''/'')
                        (replace_all (CHR ''-'') (CHR ''+'') payload))) (\<lambda>text.
     and_then (JSON_parse P text) (\<lambda>decoded.
     and_then (get_property P decoded ''exp'') (\<lambda>exp.
     and_then (if is_truthy P exp then date_toISOString P exp else Inr ''Unknown'') (\<lambda>expires.
     and_then (get_property P decoded ''scope'') (\<lambda>sc.
     and_then (get_property P decoded ''sub'') (\<lambda>sub.
     and_then (if is_truthy P sub then Inr sub
               else and_then (get_property P decoded ''username'') (\<lambda>username.
                      Inr (if is_truthy P username then username
                           else of_string P ''Unknown''))) (\<lambda>user.
     Inr (TokenInfo (take 20 token @ ''...'') expires
            (if is_truthy P sc then sc else of_string P ''Unknown'') user))))))))"

text \<open>
  The result is \<open>Inr None\<close> for \<open>null\<close> and \<open>Inr (Some info)\<close> for an object; \<open>Inl\<close>
  would be an error thrown to the caller.
\<close>

definition getTokenInfo ::
  "('j, 'v) platform \<Rightarrow> OAuth2Client \<Rightarrow> js_error + 'v token_info option" where
  "getTokenInfo P this =
     (case accessToken this of
        None \<Rightarrow> Inr None
      | Some token \<Rightarrow>
          if token = [] then Inr None
          else
            let attempt =
                  (let payload = element_at (split_on (CHR ''.'') token) 1
                   in case payload of
                        None \<Rightarrow> Inr None
                      | Some p \<Rightarrow>
                          if p \<noteq> [] then and_then (decodePayload P token p) (\<lambda>info. Inr (Some info))
                          else Inr None)
            in case attempt of
                 Inl error \<Rightarrow> Inr (Some (BasicInfo (take 20 token @ ''...'') ''Bearer''))
               | Inr returned \<Rightarrow>
                   (case returned of Some info \<Rightarrow> Inr (Some info) | None \<Rightarrow> Inr None))"

subsection \<open>Concrete states\<close>

text \<open>
  The configuration the application builds in \<open>app.ts\<close> (with its origin left out), and
  a client and a browser with nothing stored, on the callback page. The examples below
  are updates of these.
\<close>

definition demo_config :: AuthConfig where
  "demo_config =
     \<lparr>clientId = ''demo-client-id'', redirectUri = ''/callback'',
      authorizationEndpoint = ''/api/v1/oauth2/authorize'',
      tokenEndpoint = ''/api/v1/oauth2/token'',
      config_scope = Some ''read write admin''\<rparr>"

definition fresh_client :: OAuth2Client where
  "fresh_client = \<lparr>config = demo_config, accessToken = None, refreshToken = None\<rparr>"

definition fresh_browser :: browser where
  "fresh_browser =
     \<lparr>localStorage = Map.empty, sessionStorage = Map.empty,
      pathname = ''/callback'', search = [], fetched = []\<rparr>"

text \<open>
  The examples compute with integers below \<open>2^53\<close> only, where the operations of the
  platform on other doubles are not consulted; \<open>no_doubles\<close> fixes them arbitrarily.
\<close>

definition no_doubles :: double_ops where
  "no_doubles =
     \<lparr>double_times = (\<lambda>x y. 0), double_plus = (\<lambda>x y. 0), double_toString = (\<lambda>x. [])\<rparr>"

text \<open>
  Durable storage as a session that expires at the instant 2000 left it, and three
  responses of the token endpoint: a rejection, a success without \<open>expires_in\<close> and
  \<open>refresh_token\<close>, and successes with \<open>expires_in\<close> 3600 and 0.
\<close>

definition stored_session :: browser where
  "stored_session =
     fresh_browser\<lparr>localStorage :=
       [''access_token'' \<mapsto> ''tok'', ''refresh_token'' \<mapsto> ''ref'',
        ''token_expires_at'' \<mapsto> ''2000'']\<rparr>"

definition rejection :: http_response where
  "rejection = \<lparr>status = 400, text_body = ''invalid_grant'', json_body = None\<rparr>"

definition success :: "number option \<Rightarrow> http_response" where
  "success lifetime =
     \<lparr>status = 200, text_body = [],
      json_body = Some \<lparr>access_token = ''abc'', token_type = ''Bearer'',
                        expires_in = lifetime, refresh_token = None, scope = None\<rparr>\<rparr>"

section \<open>Properties\<close>

subsection \<open>Evaluation of the primitives\<close>

lemmas storage_defs = getItem_def setItem_def removeItem_def

lemmas demo_defs = demo_config_def fresh_client_def fresh_browser_def stored_session_def
  rejection_def success_def

lemmas parseInt_defs = parseInt_def Let_def is_space_def is_radix_digit_def digit_value_def

lemma parseInt_Nil: "parseInt [] = None"
  by (simp add: parseInt_def)

lemma parseInt_2000: "parseInt ''2000'' = Some 2000"
  by (simp add: parseInt_defs)

lemma error_kinds_distinct:
  "StateMismatch \<noteq> MalformedCallback" "StateMismatch \<noteq> MissingVerifier"
  "StateMismatch \<noteq> AuthorizationDenied e" "StateMismatch \<noteq> TokenExchangeFailed st body"
  "MalformedCallback \<noteq> MissingVerifier" "MalformedCallback \<noteq> AuthorizationDenied e"
  "MalformedCallback \<noteq> TokenExchangeFailed st body"
  "MissingVerifier \<noteq> AuthorizationDenied e" "MissingVerifier \<noteq> TokenExchangeFailed st body"
  "AuthorizationDenied e \<noteq> TokenExchangeFailed st body"
  by (simp_all add: StateMismatch_def MalformedCallback_def MissingVerifier_def
      AuthorizationDenied_def TokenExchangeFailed_def)

lemma nat_toString_small: "n < radix \<Longrightarrow> nat_toString radix n = [digit_char n]"
  by (simp add: nat_toString.simps [of radix n])

lemma nat_toString_large:
  "2 \<le> radix \<Longrightarrow> radix \<le> n \<Longrightarrow>
   nat_toString radix n = nat_toString radix (n div radix) @ [digit_char (n mod radix)]"
  by (simp add: nat_toString.simps [of radix n])

lemma digit_char_values:
  "digit_char 0 = CHR ''0''" "digit_char (Suc 0) = CHR ''1''" "digit_char 2 = CHR ''2''"
  "digit_char 3 = CHR ''3''" "digit_char 4 = CHR ''4''" "digit_char 5 = CHR ''5''"
  "digit_char 6 = CHR ''6''" "digit_char 7 = CHR ''7''" "digit_char 8 = CHR ''8''"
  "digit_char 9 = CHR ''9''"
  by (simp_all add: digit_char_def)

lemmas nat_toString_eval = nat_toString_small nat_toString_large digit_char_values

subsection \<open>generateRandomString\<close>

lemma nat_toString_16_byte:
  "n < 256 \<Longrightarrow>
   nat_toString 16 n =
     (if n < 16 then [digit_char n] else [digit_char (n div 16), digit_char (n mod 16)])"
  by (simp add: nat_toString.simps [of 16 n] nat_toString.simps [of 16 "n div 16"]
      less_mult_imp_div_less)

lemma unat_byte_less: "unat (b :: byte) < 256"
  using unsigned_less [of b, where ?'a = nat] by simp

lemma length_byte_hex: "length (padStart 2 ''_'' (nat_toString 16 (unat (b :: byte)))) = 2"
  by (simp add: nat_toString_16_byte unat_byte_less padStart_def)

lemma length_concat_byte_hex:
  "length (concat (map (\<lambda>byte :: byte. padStart 2 ''_'' (nat_toString 16 (unat byte))) bs))
     = 2 * length bs"
  by (induction bs) (simp_all add: length_byte_hex)

text \<open>The result always has exactly the requested number of characters.\<close>

lemma generateRandomString_length: "length (generateRandomString rnd len) = len"
  by (simp add: generateRandomString_def getRandomValues_def Let_def length_concat_byte_hex
      del: map_map)

lemma digit_char_hex: "d < 16 \<Longrightarrow> digit_char d \<in> hex_alphabet"
proof -
  assume d: "d < 16"
  have "digit_char d = (''0123456789abcdef'' @ ''ghijklmnopqrstuvwxyz'') ! d"
    by (simp add: digit_char_def)
  also have "\<dots> = ''0123456789abcdef'' ! d"
    using d by (simp only: nth_append) simp
  finally show ?thesis
    using d by (simp add: hex_alphabet_def del: set_simps)
qed

lemma byte_hex_alphabet:
  "set (padStart 2 ''_'' (nat_toString 16 (unat (b :: byte)))) \<subseteq> insert (CHR ''_'') hex_alphabet"
proof -
  have "unat b div 16 < 16"
    using unat_byte_less [of b] by simp
  then show ?thesis
    by (simp add: nat_toString_16_byte unat_byte_less padStart_def digit_char_hex)
qed

text \<open>
  What the code does give: every character is hexadecimal or an underscore, and the
  result starts with an underscore as soon as the first random byte is below 16.
\<close>

lemma generateRandomString_alphabet:
  "set (generateRandomString rnd len) \<subseteq> insert (CHR ''_'') hex_alphabet"
proof -
  have "set (generateRandomString rnd len)
      \<subseteq> (\<Union>b \<in> set (getRandomValues rnd (replicate len 0)).
           set (padStart 2 ''_'' (nat_toString 16 (unat b))))"
    using set_take_subset by (fastforce simp add: generateRandomString_def Let_def)
  then show ?thesis
    using byte_hex_alphabet by blast
qed

lemma generateRandomString_underscore:
  assumes "0 < len" and "unat (rnd 0) < 16"
  shows "hd (generateRandomString rnd len) = CHR ''_''"
proof -
  have "[0..<len] = 0 # [1..<len]"
    using assms(1) by (simp add: upt_conv_Cons)
  then have "generateRandomString rnd len
      = take len (padStart 2 ''_'' (nat_toString 16 (unat (rnd 0)))
          @ concat (map (\<lambda>byte. padStart 2 ''_'' (nat_toString 16 (unat byte)))
              (map rnd [1..<len])))"
    by (simp add: generateRandomString_def getRandomValues_def Let_def del: map_map)
  moreover have "padStart 2 ''_'' (nat_toString 16 (unat (rnd 0)))
      = [CHR ''_'', digit_char (unat (rnd 0))]"
    using assms(2) by (simp add: nat_toString_small padStart_def)
  ultimately show ?thesis
    using assms(1) by (cases len) simp_all
qed

text \<open>
  C2. The claim asks for \<open>len\<close> characters, all from the hexadecimal alphabet. The pad
  character given to \<open>padStart\<close> is an underscore, so a random byte below 16 is
  rendered as an underscore followed by one hexadecimal digit: for the length 2 and a
  random source delivering the byte 10 the result is \<open>_a\<close>, which is not hexadecimal.
\<close>

theorem generateRandomString_not_hex:
  "generateRandomString (\<lambda>i. 10) 2 = ''_a''
   \<and> \<not> set (generateRandomString (\<lambda>i. 10) 2) \<subseteq> hex_alphabet"
proof -
  have "nat_toString 16 (unat (10 :: byte)) = ''a''"
    by (simp add: nat_toString.simps [of 16 10] digit_char_def)
  then have "generateRandomString (\<lambda>i. 10) 2 = ''_a''"
    by (simp add: generateRandomString_def getRandomValues_def padStart_def numeral_2_eq_2)
  then show ?thesis by (simp add: hex_alphabet_def)
qed

subsection \<open>generateCodeChallenge\<close>

lemma b64_char_not_pad: "i < 64 \<Longrightarrow> b64_char i \<noteq> CHR ''=''"
proof -
  assume "i < 64"
  then have "b64_char i
      \<in> set ''ABCDEFGHIJKLMNOPQRSTUVWXYZabcdefghijklmnopqrstuvwxyz0123456789+/''"
    unfolding b64_char_def by (intro nth_mem) simp
  then show ?thesis by auto
qed

lemma url_safe_not_pad: "i < 64 \<Longrightarrow> url_safe (b64_char i) \<noteq> CHR ''=''"
  using b64_char_not_pad [of i] by (simp add: url_safe_def)

lemma sextet_1: "a < 256 \<Longrightarrow> a div 4 < (64 :: nat)"
  by simp

lemma sextet_2: "b < 256 \<Longrightarrow> (a mod 4) * 16 + b div 16 < (64 :: nat)"
proof -
  assume "b < 256"
  then have "b div 16 < 16" by simp
  moreover have "a mod 4 \<le> 3" by simp
  then have "(a mod 4) * 16 \<le> 48" by simp
  ultimately show ?thesis by simp
qed

lemma sextet_3: "c < 256 \<Longrightarrow> (b mod 16) * 4 + c div 64 < (64 :: nat)"
proof -
  assume "c < 256"
  then have "c div 64 < 4" by simp
  moreover have "b mod 16 \<le> 15" by simp
  then have "(b mod 16) * 4 \<le> 60" by simp
  ultimately show ?thesis by simp
qed

lemma sextet_2': "(a mod 4) * 16 < (64 :: nat)"
  using sextet_2 [of 0 a] by simp

lemma sextet_3': "(b mod 16) * 4 < (64 :: nat)"
  using sextet_3 [of 0 b] by simp

lemma sextet_4: "c mod 64 < (64 :: nat)"
  by simp

lemmas sextets = sextet_1 sextet_2 sextet_2' sextet_3 sextet_3' sextet_4

lemma remove_all_Cons: "c \<noteq> a \<Longrightarrow> remove_all a (c # s) = c # remove_all a s"
  by (simp add: remove_all_def)

lemma remove_all_pad: "remove_all a [] = []" "remove_all a [a] = []" "remove_all a [a, a] = []"
  by (simp_all add: remove_all_def)

lemma strip_padding_Cons:
  assumes "c \<noteq> CHR ''=''"
  shows "strip_padding (c # s) = c # strip_padding s"
proof -
  have "dropWhile (\<lambda>x. x = CHR ''='') (rev s @ [c])
      = (if \<forall>x \<in> set (rev s). x = CHR ''='' then [c]
         else dropWhile (\<lambda>x. x = CHR ''='') (rev s) @ [c])"
    using assms by (simp add: dropWhile_append)
  moreover have "(\<forall>x \<in> set (rev s). x = CHR ''='')
      \<Longrightarrow> dropWhile (\<lambda>x. x = CHR ''='') (rev s) = []"
    by simp
  ultimately show ?thesis
    by (simp add: strip_padding_def)
qed

lemma strip_padding_pad:
  "strip_padding [] = []" "strip_padding ''='' = []" "strip_padding ''=='' = []"
  by (simp_all add: strip_padding_def)

lemma url_safe_pad: "url_safe (CHR ''='') = CHR ''=''"
  by (simp add: url_safe_def)

lemma remove_pad_groups:
  "\<forall>x \<in> set xs. x < 256 \<Longrightarrow>
   remove_all (CHR ''='') (map url_safe (b64_groups xs))
     = strip_padding (map url_safe (b64_groups xs))"
proof (induction xs rule: b64_groups.induct)
  case 1
  show ?case
    by (simp only: b64_groups.simps list.map remove_all_pad strip_padding_pad)
next
  case (2 a)
  then have "a < 256" by simp
  then show ?case
    by (simp add: url_safe_pad remove_all_Cons strip_padding_Cons
        url_safe_not_pad sextets remove_all_pad strip_padding_pad)
next
  case (3 a b)
  then have "a < 256" "b < 256" by simp_all
  then show ?case
    by (simp add: url_safe_pad remove_all_Cons strip_padding_Cons
        url_safe_not_pad sextets remove_all_pad strip_padding_pad)
next
  case (4 a b c rest)
  then have bounds: "a < 256" "b < 256" "c < 256" and rest: "\<forall>x \<in> set rest. x < 256"
    by simp_all
  have IH: "remove_all (CHR ''='') (map url_safe (b64_groups rest))
      = strip_padding (map url_safe (b64_groups rest))"
    using "4.IH" rest by blast
  show ?case
    using bounds
    by (simp add: remove_all_Cons strip_padding_Cons url_safe_not_pad sextets IH)
qed

lemma replace_twice:
  "replace_all (CHR ''/'') (CHR ''_'') (replace_all (CHR ''+'') (CHR ''-'') s) = map url_safe s"
  by (simp add: replace_all_def url_safe_def)

lemma code_units_are_bytes: "\<forall>x \<in> set (map of_char (s :: string)). x < (256 :: nat)"
  by simp

text \<open>The alphabet of \<open>btoa\<close> is the alphabet of RFC 4648.\<close>

lemma char_is_char_of: "c = char_of (n :: nat) \<longleftrightarrow> of_char c = n mod 256"
  using char_of_eq_iff [of n c] by (auto simp add: take_bit_eq_mod)

lemma alphabet_agrees: "i < 64 \<Longrightarrow> b64_char i = base64_alphabet i"
proof -
  have "list_all (\<lambda>i. b64_char i = base64_alphabet i) [0..<64]"
    by (simp add: b64_char_def base64_alphabet_def upt_conv_Cons char_is_char_of)
  then show "i < 64 \<Longrightarrow> b64_char i = base64_alphabet i"
    by (simp add: list_all_iff)
qed

text \<open>A byte is the sum of its bits, and its quotients and remainders are sums of bits.\<close>

lemma unat_byte_bits:
  "unat (a :: byte) =
     128 * of_bool (bit a 7) + 64 * of_bool (bit a 6) + 32 * of_bool (bit a 5)
     + 16 * of_bool (bit a 4) + 8 * of_bool (bit a 3) + 4 * of_bool (bit a 2)
     + 2 * of_bool (bit a 1) + of_bool (bit a 0)"
proof -
  have upt: "[0..<8] = [0, 1, 2, 3, 4, 5, 6, 7 :: nat]"
    by (simp add: upt_conv_Cons)
  have "unat a = take_bit 8 (unat a)"
    using unat_byte_less [of a] by (simp add: take_bit_nat_eq_self)
  also have "\<dots> = horner_sum of_bool 2 (map (bit (unat a)) [0..<8])"
    by (simp only: horner_sum_bit_eq_take_bit)
  also have "map (bit (unat a)) [0..<8] = map (bit a) [0..<8]"
    by (simp add: bit_unsigned_iff)
  finally have "unat a = horner_sum of_bool 2 (map (bit a) [0, 1, 2, 3, 4, 5, 6, 7])"
    by (simp only: upt)
  then show ?thesis
    by (simp only: list.map horner_sum_simps) simp
qed

lemma split_div_mod:
  fixes h l k :: nat
  assumes "n = k * h + l" and "l < k"
  shows "n div k = h" and "n mod k = l"
  using assms by simp_all

lemma byte_div_mod:
  fixes a :: byte
  shows "unat a div 4 = 32 * of_bool (bit a 7) + 16 * of_bool (bit a 6) + 8 * of_bool (bit a 5)
           + 4 * of_bool (bit a 4) + 2 * of_bool (bit a 3) + of_bool (bit a 2)"
    and "unat a mod 4 = 2 * of_bool (bit a 1) + of_bool (bit a 0)"
    and "unat a div 16 = 8 * of_bool (bit a 7) + 4 * of_bool (bit a 6) + 2 * of_bool (bit a 5)
           + of_bool (bit a 4)"
    and "unat a mod 16 = 8 * of_bool (bit a 3) + 4 * of_bool (bit a 2) + 2 * of_bool (bit a 1)
           + of_bool (bit a 0)"
    and "unat a div 64 = 2 * of_bool (bit a 7) + of_bool (bit a 6)"
    and "unat a mod 64 = 32 * of_bool (bit a 5) + 16 * of_bool (bit a 4) + 8 * of_bool (bit a 3)
           + 4 * of_bool (bit a 2) + 2 * of_bool (bit a 1) + of_bool (bit a 0)"
proof -
  have low2: "2 * of_bool (bit a 1) + of_bool (bit a 0) < (4 :: nat)"
    by (simp add: of_bool_def)
  have low4: "8 * of_bool (bit a 3) + 4 * of_bool (bit a 2) + 2 * of_bool (bit a 1)
      + of_bool (bit a 0) < (16 :: nat)"
    by (simp add: of_bool_def)
  have low6: "32 * of_bool (bit a 5) + 16 * of_bool (bit a 4) + 8 * of_bool (bit a 3)
      + 4 * of_bool (bit a 2) + 2 * of_bool (bit a 1) + of_bool (bit a 0) < (64 :: nat)"
    by (simp add: of_bool_def)
  have e4: "unat a = 4 * (32 * of_bool (bit a 7) + 16 * of_bool (bit a 6) + 8 * of_bool (bit a 5)
      + 4 * of_bool (bit a 4) + 2 * of_bool (bit a 3) + of_bool (bit a 2))
      + (2 * of_bool (bit a 1) + of_bool (bit a 0))"
    by (simp add: unat_byte_bits [of a])
  have e16: "unat a = 16 * (8 * of_bool (bit a 7) + 4 * of_bool (bit a 6) + 2 * of_bool (bit a 5)
      + of_bool (bit a 4))
      + (8 * of_bool (bit a 3) + 4 * of_bool (bit a 2) + 2 * of_bool (bit a 1)
      + of_bool (bit a 0))"
    by (simp add: unat_byte_bits [of a])
  have e64: "unat a = 64 * (2 * of_bool (bit a 7) + of_bool (bit a 6))
      + (32 * of_bool (bit a 5) + 16 * of_bool (bit a 4) + 8 * of_bool (bit a 3)
      + 4 * of_bool (bit a 2) + 2 * of_bool (bit a 1) + of_bool (bit a 0))"
    by (simp add: unat_byte_bits [of a])
  show "unat a div 4 = 32 * of_bool (bit a 7) + 16 * of_bool (bit a 6) + 8 * of_bool (bit a 5)
           + 4 * of_bool (bit a 4) + 2 * of_bool (bit a 3) + of_bool (bit a 2)"
    by (rule split_div_mod(1) [OF e4 low2])
  show "unat a mod 4 = 2 * of_bool (bit a 1) + of_bool (bit a 0)"
    by (rule split_div_mod(2) [OF e4 low2])
  show "unat a div 16 = 8 * of_bool (bit a 7) + 4 * of_bool (bit a 6) + 2 * of_bool (bit a 5)
           + of_bool (bit a 4)"
    by (rule split_div_mod(1) [OF e16 low4])
  show "unat a mod 16 = 8 * of_bool (bit a 3) + 4 * of_bool (bit a 2) + 2 * of_bool (bit a 1)
           + of_bool (bit a 0)"
    by (rule split_div_mod(2) [OF e16 low4])
  show "unat a div 64 = 2 * of_bool (bit a 7) + of_bool (bit a 6)"
    by (rule split_div_mod(1) [OF e64 low6])
  show "unat a mod 64 = 32 * of_bool (bit a 5) + 16 * of_bool (bit a 4) + 8 * of_bool (bit a 3)
           + 4 * of_bool (bit a 2) + 2 * of_bool (bit a 1) + of_bool (bit a 0)"
    by (rule split_div_mod(2) [OF e64 low6])
qed

lemma sextet_values:
  fixes a b c :: byte
  shows "sextet_index [bit a 7, bit a 6, bit a 5, bit a 4, bit a 3, bit a 2] = unat a div 4"
    and "sextet_index [bit a 1, bit a 0, bit b 7, bit b 6, bit b 5, bit b 4]
           = (unat a mod 4) * 16 + unat b div 16"
    and "sextet_index [bit b 3, bit b 2, bit b 1, bit b 0, bit c 7, bit c 6]
           = (unat b mod 16) * 4 + unat c div 64"
    and "sextet_index [bit c 5, bit c 4, bit c 3, bit c 2, bit c 1, bit c 0] = unat c mod 64"
    and "sextet_index [bit a 1, bit a 0, False, False, False, False] = (unat a mod 4) * 16"
    and "sextet_index [bit b 3, bit b 2, bit b 1, bit b 0, False, False] = (unat b mod 16) * 4"
  by (simp_all add: sextet_index_def byte_div_mod)

text \<open>\<open>btoa\<close> on the string made of bytes is the base64 encoding of RFC 4648.\<close>

lemma b64_groups_rfc4648: "b64_groups (map unat bytes) = base64_rfc4648 bytes"
proof (induction bytes rule: base64_rfc4648.induct)
  case 1
  show ?case by simp
next
  case (2 a)
  show ?case
    by (simp add: encode_bits_def bits_of_byte_def sextet_values [unfolded One_nat_def]
        alphabet_agrees sextets unat_byte_less)
next
  case (3 a b)
  show ?case
    by (simp add: encode_bits_def bits_of_byte_def sextet_values [unfolded One_nat_def]
        alphabet_agrees sextets unat_byte_less)
next
  case (4 a b c rest)
  then show ?case
    by (simp add: encode_bits_def bits_of_byte_def sextet_values [unfolded One_nat_def]
        alphabet_agrees sextets unat_byte_less)
qed

lemma btoa_rfc4648: "btoa (String_fromCharCode bytes) = base64_rfc4648 bytes"
proof -
  have "map of_char (String_fromCharCode bytes) = map unat bytes"
    by (simp add: String_fromCharCode_def unat_byte_less)
  then show ?thesis
    by (simp only: btoa_def b64_groups_rfc4648)
qed

text \<open>
  Forms of the definitions of SHA-256 in which every sum and every shift to the left is
  reduced below \<open>2^32\<close>, for evaluation on numerals.
\<close>

lemma norm32: "take_bit 32 (x :: 32 word) = x"
  by (simp add: take_bit_word_eq_self)

lemma rotr_eval: "rotr n x = drop_bit n x OR take_bit 32 (push_bit (32 - n) x)"
  by (simp only: rotr_def norm32)

lemma sha256_schedule_eval:
  "sha256_schedule M =
     fold (\<lambda>t W. W @ [take_bit 32
                         (sigma1 (W ! (t - 2)) + W ! (t - 7) + sigma0 (W ! (t - 15)) + W ! (t - 16))])
       [16..<64] M"
  by (simp only: sha256_schedule_def norm32)

lemma sha256_round_eval:
  "sha256_round (k, w) [a, b, c, d, e, f, g, h] =
     (let T1 = take_bit 32 (h + Sigma1 e + Ch e f g + k + w);
          T2 = take_bit 32 (Sigma0 a + Maj a b c)
      in [take_bit 32 (T1 + T2), a, b, c, take_bit 32 (d + T1), e, f, g])"
  by (simp only: sha256_round.simps norm32)

lemma sha256_compress_eval:
  "sha256_compress H M =
     map2 (\<lambda>x y. take_bit 32 (x + y)) H
       (fold sha256_round (zip sha256_K (sha256_schedule M)) H)"
  by (simp only: sha256_compress_def norm32)

lemma sha256_blocks_done: "length ws < 16 \<Longrightarrow> sha256_blocks H ws = H"
  by (simp add: sha256_blocks.simps)

lemma sha256_blocks_step:
  "16 \<le> length ws \<Longrightarrow>
   sha256_blocks H ws = sha256_blocks (sha256_compress H (take 16 ws)) (drop 16 ws)"
  by (simp add: sha256_blocks.simps [of H ws])

lemma replicate_numeral_eval: "replicate (numeral k) x = x # replicate (pred_numeral k) x"
  by (simp add: numeral_eq_Suc)

lemmas sha256_eval = SHA_256_def sha256_pad_def sha256_blocks_done sha256_blocks_step
  sha256_compress_eval sha256_schedule_eval sha256_round_eval sha256_K_def sha256_H0_def
  be_bytes_def Let_def rotr_eval Ch_def Maj_def Sigma0_def Sigma1_def sigma0_def sigma1_def
  replicate_numeral_eval

text \<open>The digest of the verifier of RFC 7636, Appendix B, is the one given there.\<close>

lemma sha256_rfc7636:
  "SHA_256 (TextEncoder_encode ''dBjftJeZ4CVP-mB92K27uhbUJU1p1r_wW1gFWFOEjXk'') =
     [19, 211, 30, 150, 26, 26, 216, 236, 47, 22, 177, 12, 76, 152, 46, 8, 118, 168,
      120, 173, 109, 241, 68, 86, 110, 225, 137, 74, 203, 112, 249, 195]"
  by (simp add: TextEncoder_encode_def sha256_eval)

text \<open>
  The digest of a verifier with code units above 127, \<open>U+00E9 t U+00E9\<close>, whose UTF-8
  bytes are \<open>c3 a9 74 c3 a9\<close>.
\<close>

lemma sha256_latin1:
  "SHA_256 (TextEncoder_encode [CHR 0xE9, CHR ''t'', CHR 0xE9]) =
     [0xbd, 0x01, 0x0c, 0x64, 0x13, 0x2b, 0xf5, 0xca, 0xe8, 0xae, 0xa8, 0x9f, 0x67, 0x62, 0x51,
      0x57, 0x27, 0xdc, 0xf6, 0x8a, 0x5d, 0xd1, 0xde, 0x81, 0x3c, 0x87, 0xf5, 0x0a, 0x16, 0xc4,
      0x51, 0x3c]"
  by (simp add: TextEncoder_encode_def sha256_eval)

text \<open>
  C7. For every verifier the challenge is the base64url encoding, as the specification
  words it, of the SHA-256 digest of the UTF-8 bytes of the verifier, and it has no \<open>+\<close>,
  \<open>/\<close> or \<open>=\<close>. The challenge is a function of the verifier alone, so two runs on one
  verifier give one result. On the verifier of RFC 7636, Appendix B, it is the challenge
  given there, and on the verifier \<open>U+00E9 t U+00E9\<close> it is the challenge a reference
  implementation gives.
\<close>

theorem generateCodeChallenge_base64url:
  "generateCodeChallenge codeVerifier = base64url_spec (SHA_256 (TextEncoder_encode codeVerifier))
   \<and> CHR ''+'' \<notin> set (generateCodeChallenge codeVerifier)
   \<and> CHR ''/'' \<notin> set (generateCodeChallenge codeVerifier)
   \<and> CHR ''='' \<notin> set (generateCodeChallenge codeVerifier)
   \<and> generateCodeChallenge ''dBjftJeZ4CVP-mB92K27uhbUJU1p1r_wW1gFWFOEjXk''
       = ''E9Melhoa2OwvFrEMTJguCHaoeK1t8URWbuGJSstw-cM''
   \<and> generateCodeChallenge [CHR 0xE9, CHR ''t'', CHR 0xE9]
       = ''vQEMZBMr9crorqifZ2JRVyfc9opd0d6BPIf1ChbEUTw''"
proof -
  let ?s = "String_fromCharCode (SHA_256 (TextEncoder_encode codeVerifier))"
  have "remove_all (CHR ''='') (map url_safe (b64_groups (map of_char ?s)))
      = strip_padding (map url_safe (b64_groups (map of_char ?s)))"
    using code_units_are_bytes [of ?s] by (rule remove_pad_groups)
  then have "remove_all (CHR ''='') (map url_safe (btoa ?s)) = strip_padding (map url_safe (btoa ?s))"
    by (simp only: btoa_def)
  then have eq: "generateCodeChallenge codeVerifier
      = base64url_spec (SHA_256 (TextEncoder_encode codeVerifier))"
    by (simp only: generateCodeChallenge_def Let_def replace_twice base64url_spec_def
        btoa_rfc4648)
  have "CHR ''+'' \<notin> set (map url_safe (btoa ?s))" "CHR ''/'' \<notin> set (map url_safe (btoa ?s))"
    by (auto simp: url_safe_def)
  then have no: "CHR ''+'' \<notin> set (generateCodeChallenge codeVerifier)"
    "CHR ''/'' \<notin> set (generateCodeChallenge codeVerifier)"
    "CHR ''='' \<notin> set (generateCodeChallenge codeVerifier)"
    by (simp_all add: generateCodeChallenge_def Let_def replace_twice remove_all_def)
  have rfc: "generateCodeChallenge ''dBjftJeZ4CVP-mB92K27uhbUJU1p1r_wW1gFWFOEjXk''
      = ''E9Melhoa2OwvFrEMTJguCHaoeK1t8URWbuGJSstw-cM''"
    unfolding generateCodeChallenge_def Let_def sha256_rfc7636
    by (simp add: btoa_def b64_char_def String_fromCharCode_def replace_all_def remove_all_def)
  have latin1: "generateCodeChallenge [CHR 0xE9, CHR ''t'', CHR 0xE9]
      = ''vQEMZBMr9crorqifZ2JRVyfc9opd0d6BPIf1ChbEUTw''"
    unfolding generateCodeChallenge_def Let_def sha256_latin1
    by (simp add: btoa_def b64_char_def String_fromCharCode_def replace_all_def remove_all_def)
  from eq no rfc latin1 show ?thesis by blast
qed

subsection \<open>handleCallback\<close>

text \<open>
  C1, as the claim states it, fails where an earlier check of \<open>handleCallback\<close> throws
  first: with an \<open>error\<close> parameter in the query, with an empty \<open>state\<close> parameter and
  with an empty \<open>code\<close> parameter the stored and the received state differ, and the
  error thrown is not the one of the state check.
\<close>

theorem handleCallback_state_mismatch_counterexample:
  "getItem (sessionStorage (fresh_browser\<lparr>sessionStorage := [''oauth_state'' \<mapsto> ''s2'']\<rparr>))
      ''oauth_state'' \<noteq> Some ''s1''
   \<and> fst (handleCallback no_doubles Rejected 1000
        (fresh_client,
         fresh_browser\<lparr>sessionStorage := [''oauth_state'' \<mapsto> ''s2''],
           search := [(''code'', ''c''), (''state'', ''s1''), (''error'', ''access_denied'')]\<rparr>))
       = Inl (AuthorizationDenied ''access_denied'')
   \<and> fst (handleCallback no_doubles Rejected 1000
        (fresh_client,
         fresh_browser\<lparr>sessionStorage := [''oauth_state'' \<mapsto> ''s2''],
           search := [(''code'', ''c''), (''state'', '''')]\<rparr>))
       = Inl MalformedCallback
   \<and> fst (handleCallback no_doubles Rejected 1000
        (fresh_client,
         fresh_browser\<lparr>sessionStorage := [''oauth_state'' \<mapsto> ''s2''],
           search := [(''code'', ''''), (''state'', ''s1'')]\<rparr>))
       = Inl MalformedCallback
   \<and> AuthorizationDenied ''access_denied'' \<noteq> StateMismatch
   \<and> MalformedCallback \<noteq> StateMismatch"
  by (simp add: handleCallback_def Let_def truthy_def get_param_def getItem_def demo_defs
      AuthorizationDenied_def MalformedCallback_def StateMismatch_def)

text \<open>
  C1, amended. Whenever the stored \<open>oauth_state\<close> is absent or differs from the received
  \<open>state\<close>, \<open>handleCallback\<close> throws, the tokens in memory and \<open>localStorage\<close> are
  unchanged and no request is sent. The error thrown is \<open>AuthorizationDenied\<close> with the
  value of the \<open>error\<close> parameter when that parameter is present and not empty;
  otherwise \<open>MalformedCallback\<close> when \<open>code\<close> or \<open>state\<close> is missing or empty; otherwise
  \<open>StateMismatch\<close>.
\<close>

theorem handleCallback_state_mismatch:
  assumes "getItem (sessionStorage b) ''oauth_state'' = None
           \<or> getItem (sessionStorage b) ''oauth_state'' \<noteq> get_param (search b) ''state''"
  shows "(case handleCallback D fr now (this, b) of (result, this', b') \<Rightarrow>
            (truthy (get_param (search b) ''error'')
               \<longrightarrow> (\<exists>e. get_param (search b) ''error'' = Some e
                        \<and> result = Inl (AuthorizationDenied e)))
            \<and> (\<not> truthy (get_param (search b) ''error'')
                \<and> (\<not> truthy (get_param (search b) ''code'')
                    \<or> \<not> truthy (get_param (search b) ''state''))
                \<longrightarrow> result = Inl MalformedCallback)
            \<and> (\<not> truthy (get_param (search b) ''error'')
                \<and> truthy (get_param (search b) ''code'')
                \<and> truthy (get_param (search b) ''state'')
                \<longrightarrow> result = Inl StateMismatch)
            \<and> (\<exists>e. result = Inl e)
            \<and> accessToken this' = accessToken this
            \<and> refreshToken this' = refreshToken this
            \<and> localStorage b' = localStorage b
            \<and> fetched b' = fetched b)"
  using assms
  by (auto simp add: handleCallback_def Let_def StateMismatch_def MalformedCallback_def
      AuthorizationDenied_def truthy_def split: option.splits)

theorem handleCallback_state_mismatch_witness:
  "(case handleCallback no_doubles (Resolved (success (Some (Integer 3600)))) 1000
          (fresh_client\<lparr>accessToken := Some ''tok''\<rparr>,
           stored_session\<lparr>sessionStorage := [''oauth_state'' \<mapsto> ''s2''],
             search := [(''code'', ''c''), (''state'', ''s1'')]\<rparr>) of
      (result, this', b') \<Rightarrow>
        result = Inl StateMismatch
        \<and> accessToken this' = Some ''tok''
        \<and> localStorage b' = localStorage stored_session
        \<and> fetched b' = [])
   \<and> (case handleCallback no_doubles (Resolved (success (Some (Integer 3600)))) 1000
          (fresh_client\<lparr>accessToken := Some ''tok''\<rparr>,
           stored_session\<lparr>sessionStorage := [''oauth_state'' \<mapsto> ''s2''],
             search := [(''code'', ''c''), (''state'', [])]\<rparr>) of
      (result, this', b') \<Rightarrow>
        result = Inl MalformedCallback
        \<and> accessToken this' = Some ''tok''
        \<and> localStorage b' = localStorage stored_session
        \<and> fetched b' = [])
   \<and> (case handleCallback no_doubles (Resolved (success (Some (Integer 3600)))) 1000
          (fresh_client\<lparr>accessToken := Some ''tok''\<rparr>,
           stored_session\<lparr>sessionStorage := [''oauth_state'' \<mapsto> ''s2''],
             search := [(''code'', ''c''), (''state'', ''s1''), (''error'', ''denied'')]\<rparr>) of
      (result, this', b') \<Rightarrow>
        result = Inl (AuthorizationDenied ''denied'')
        \<and> accessToken this' = Some ''tok''
        \<and> localStorage b' = localStorage stored_session
        \<and> fetched b' = [])"
proof -
  let ?stored = "stored_session\<lparr>sessionStorage := [''oauth_state'' \<mapsto> ''s2'']\<rparr>"
  let ?b1 = "?stored\<lparr>search := [(''code'', ''c''), (''state'', ''s1'')]\<rparr>"
  let ?b2 = "?stored\<lparr>search := [(''code'', ''c''), (''state'', [])]\<rparr>"
  let ?b3 = "?stored\<lparr>search := [(''code'', ''c''), (''state'', ''s1''), (''error'', ''denied'')]\<rparr>"
  have h1: "getItem (sessionStorage ?b1) ''oauth_state'' \<noteq> get_param (search ?b1) ''state''"
    and h2: "getItem (sessionStorage ?b2) ''oauth_state'' \<noteq> get_param (search ?b2) ''state''"
    and h3: "getItem (sessionStorage ?b3) ''oauth_state'' \<noteq> get_param (search ?b3) ''state''"
    by (simp_all add: getItem_def get_param_def)
  have q1: "\<not> truthy (get_param (search ?b1) ''error'')" "truthy (get_param (search ?b1) ''code'')"
    "truthy (get_param (search ?b1) ''state'')"
    and q2: "\<not> truthy (get_param (search ?b2) ''error'')"
    "\<not> truthy (get_param (search ?b2) ''state'')"
    and q3: "truthy (get_param (search ?b3) ''error'')"
    "get_param (search ?b3) ''error'' = Some ''denied''"
    by (simp_all add: truthy_def get_param_def)
  have first: "(case handleCallback no_doubles (Resolved (success (Some (Integer 3600)))) 1000
          (fresh_client\<lparr>accessToken := Some ''tok''\<rparr>, ?b1) of
      (result, this', b') \<Rightarrow>
        result = Inl StateMismatch \<and> accessToken this' = Some ''tok''
        \<and> localStorage b' = localStorage stored_session \<and> fetched b' = [])"
    using q1 handleCallback_state_mismatch [OF disjI2 [OF h1], where D = no_doubles
        and fr = "Resolved (success (Some (Integer 3600)))" and now = 1000
        and this = "fresh_client\<lparr>accessToken := Some ''tok''\<rparr>"]
    by (simp add: demo_defs split: prod.splits)
  have second: "(case handleCallback no_doubles (Resolved (success (Some (Integer 3600)))) 1000
          (fresh_client\<lparr>accessToken := Some ''tok''\<rparr>, ?b2) of
      (result, this', b') \<Rightarrow>
        result = Inl MalformedCallback \<and> accessToken this' = Some ''tok''
        \<and> localStorage b' = localStorage stored_session \<and> fetched b' = [])"
    using q2 handleCallback_state_mismatch [OF disjI2 [OF h2], where D = no_doubles
        and fr = "Resolved (success (Some (Integer 3600)))" and now = 1000
        and this = "fresh_client\<lparr>accessToken := Some ''tok''\<rparr>"]
    by (simp add: demo_defs split: prod.splits)
  have third: "(case handleCallback no_doubles (Resolved (success (Some (Integer 3600)))) 1000
          (fresh_client\<lparr>accessToken := Some ''tok''\<rparr>, ?b3) of
      (result, this', b') \<Rightarrow>
        result = Inl (AuthorizationDenied ''denied'') \<and> accessToken this' = Some ''tok''
        \<and> localStorage b' = localStorage stored_session \<and> fetched b' = [])"
    using q3 handleCallback_state_mismatch [OF disjI2 [OF h3], where D = no_doubles
        and fr = "Resolved (success (Some (Integer 3600)))" and now = 1000
        and this = "fresh_client\<lparr>accessToken := Some ''tok''\<rparr>"]
    by (simp add: demo_defs split: prod.splits)
  from first second third show ?thesis
    by (simp only: simp_thms)
qed

text \<open>
  C8, as the claim states it, fails for an \<open>error\<close> parameter that is present and empty:
  \<open>if (error)\<close> takes the empty string for an absent parameter, and the callback goes on
  to the token exchange.
\<close>

theorem handleCallback_empty_error_counterexample:
  "get_param [(''error'', ''''), (''code'', ''c''), (''state'', ''s1'')] ''error'' = Some ''''
   \<and> fst (handleCallback no_doubles (Resolved (success (Some (Integer 3600)))) 1000
        (fresh_client,
         fresh_browser\<lparr>sessionStorage :=
             [''oauth_state'' \<mapsto> ''s1'', ''oauth_code_verifier'' \<mapsto> ''v1''],
           search := [(''error'', ''''), (''code'', ''c''), (''state'', ''s1'')]\<rparr>))
       = Inr True
   \<and> length (fetched (snd (snd (handleCallback no_doubles (Resolved (success (Some (Integer 3600)))) 1000
        (fresh_client,
         fresh_browser\<lparr>sessionStorage :=
             [''oauth_state'' \<mapsto> ''s1'', ''oauth_code_verifier'' \<mapsto> ''v1''],
           search := [(''error'', ''''), (''code'', ''c''), (''state'', ''s1'')]\<rparr>))))) = 1
   \<and> accessToken (fst (snd (handleCallback no_doubles (Resolved (success (Some (Integer 3600)))) 1000
        (fresh_client,
         fresh_browser\<lparr>sessionStorage :=
             [''oauth_state'' \<mapsto> ''s1'', ''oauth_code_verifier'' \<mapsto> ''v1''],
           search := [(''error'', ''''), (''code'', ''c''), (''state'', ''s1'')]\<rparr>))))
       = Some ''abc''"
  by (simp add: handleCallback_def exchangeCodeForToken_def saveTokensToStorage_def Let_def
      truthy_def get_param_def storage_defs ok_def demo_defs)

text \<open>
  C8, amended. For every query whose \<open>error\<close> parameter is present and not empty,
  \<open>handleCallback\<close> throws \<open>AuthorizationDenied\<close> with that value, whatever the other
  parameters and the storages hold; no request is sent, and the tokens in memory, the
  \<open>localStorage\<close> and the \<open>sessionStorage\<close> are unchanged.
\<close>

theorem handleCallback_error_parameter:
  assumes "get_param (search b) ''error'' = Some e" and "e \<noteq> []"
  shows "(case handleCallback D fr now (this, b) of (result, this', b') \<Rightarrow>
            result = Inl (AuthorizationDenied e)
            \<and> fetched b' = fetched b
            \<and> accessToken this' = accessToken this
            \<and> refreshToken this' = refreshToken this
            \<and> localStorage b' = localStorage b
            \<and> sessionStorage b' = sessionStorage b)"
  using assms
  by (simp add: handleCallback_def Let_def AuthorizationDenied_def truthy_def)

theorem handleCallback_error_parameter_witness:
  "get_param [(''code'', ''c''), (''state'', ''s1''), (''error'', ''access_denied'')] ''error''
     = Some ''access_denied''
   \<and> ''access_denied'' \<noteq> []
   \<and> (case handleCallback no_doubles (Resolved (success (Some (Integer 3600)))) 1000
              (fresh_client,
               fresh_browser\<lparr>sessionStorage :=
                   [''oauth_state'' \<mapsto> ''s1'', ''oauth_code_verifier'' \<mapsto> ''v1''],
                 search := [(''code'', ''c''), (''state'', ''s1''),
                            (''error'', ''access_denied'')]\<rparr>) of
         (result, this', b') \<Rightarrow>
           result = Inl (AuthorizationDenied ''access_denied'')
           \<and> fetched b' = []
           \<and> accessToken this' = None
           \<and> getItem (localStorage b') ''access_token'' = None
           \<and> getItem (sessionStorage b') ''oauth_state'' = Some ''s1'')"
proof -
  let ?b = "fresh_browser\<lparr>sessionStorage :=
                [''oauth_state'' \<mapsto> ''s1'', ''oauth_code_verifier'' \<mapsto> ''v1''],
              search := [(''code'', ''c''), (''state'', ''s1''),
                         (''error'', ''access_denied'')]\<rparr>"
  have h: "get_param (search ?b) ''error'' = Some ''access_denied''"
    by (simp add: get_param_def)
  have n: "''access_denied'' \<noteq> []"
    by simp
  show ?thesis
    using h handleCallback_error_parameter [OF h n,
        where D = no_doubles and fr = "Resolved (success (Some (Integer 3600)))" and now = 1000 and this = fresh_client]
    by (simp add: demo_defs getItem_def split: prod.splits)
qed

subsection \<open>exchangeCodeForToken\<close>

text \<open>
  C3. When the token endpoint answers with a status outside 200..299,
  \<open>exchangeCodeForToken\<close> throws the error that carries the status and the body, and
  the tokens in memory and the three entries of \<open>localStorage\<close> keep their values, so
  \<open>getAccessToken()\<close> still returns the token held before.
\<close>

theorem exchange_failure_installs_nothing:
  assumes "\<not> ok response"
  shows "(case exchangeCodeForToken D (Resolved response) now code codeVerifier (this, b) of
            (result, this', b') \<Rightarrow>
              result = Inl (TokenExchangeFailed (status response) (text_body response))
              \<and> accessToken this' = accessToken this
              \<and> refreshToken this' = refreshToken this
              \<and> getAccessToken this' = getAccessToken this
              \<and> getItem (localStorage b') ''access_token'' = getItem (localStorage b) ''access_token''
              \<and> getItem (localStorage b') ''refresh_token'' = getItem (localStorage b) ''refresh_token''
              \<and> getItem (localStorage b') ''token_expires_at''
                    = getItem (localStorage b) ''token_expires_at'')"
  using assms by (simp add: exchangeCodeForToken_def Let_def TokenExchangeFailed_def)

theorem exchange_failure_installs_nothing_witness:
  "\<not> ok rejection
   \<and> (case exchangeCodeForToken no_doubles (Resolved rejection) 1000 ''code2'' ''verifier2''
              (fresh_client\<lparr>accessToken := Some ''tok'', refreshToken := Some ''ref''\<rparr>,
               stored_session) of
         (result, this', b') \<Rightarrow>
           result = Inl (TokenExchangeFailed 400 ''invalid_grant'')
           \<and> getAccessToken this' = Some ''tok''
           \<and> refreshToken this' = Some ''ref''
           \<and> getItem (localStorage b') ''access_token'' = Some ''tok''
           \<and> getItem (localStorage b') ''refresh_token'' = Some ''ref''
           \<and> getItem (localStorage b') ''token_expires_at'' = Some ''2000'')"
proof -
  have h: "\<not> ok rejection"
    by (simp add: ok_def rejection_def)
  show ?thesis
    using h exchange_failure_installs_nothing [OF h, where D = no_doubles and now = 1000 and code = "''code2''"
        and codeVerifier = "''verifier2''"
        and this = "fresh_client\<lparr>accessToken := Some ''tok'', refreshToken := Some ''ref''\<rparr>"
        and b = stored_session]
    by (simp add: getAccessToken_def getItem_def demo_defs split: prod.splits)
qed

text \<open>
  C6, as the claim states it, fails for \<open>expires_in\<close> 0: the guard
  \<open>if (tokenResponse.expires_in)\<close> takes 0 for an absent field, and no expiry entry is
  written, whatever the string form of \<open>now + 0 * 1000\<close> is.
\<close>

theorem exchange_zero_lifetime_counterexample:
  "ok (success (Some (Integer 0)))
   \<and> map_option access_token (json_body (success (Some (Integer 0)))) = Some ''abc''
   \<and> map_option expires_in (json_body (success (Some (Integer 0)))) = Some (Some (Integer 0))
   \<and> getItem (localStorage (snd (snd (exchangeCodeForToken no_doubles (Resolved (success (Some (Integer 0)))) 1000
         ''code1'' ''verifier1'' (fresh_client, fresh_browser))))) ''token_expires_at'' = None
   \<and> getItem (localStorage (snd (snd (exchangeCodeForToken no_doubles (Resolved (success (Some (Integer 0)))) 1000
         ''code1'' ''verifier1'' (fresh_client, fresh_browser))))) ''token_expires_at''
       \<noteq> Some (Number_toString (1000 + 0 * 1000))"
  by (simp add: exchangeCodeForToken_def saveTokensToStorage_def Let_def ok_def truthy_def
      number_truthy_def storage_defs demo_defs)

text \<open>
  C6, amended. For every response with a status in 200..299 whose body holds the access
  token \<open>t\<close> and a truthy \<open>expires_in\<close> \<open>s\<close> (not 0, not \<open>NaN\<close>), after
  \<open>exchangeCodeForToken\<close> the client is authenticated, \<open>getAccessToken()\<close> returns \<open>t\<close>,
  the entry \<open>access_token\<close> is \<open>t\<close>, and the entry \<open>token_expires_at\<close> is the string form
  of \<open>now + s * 1000\<close> as the platform computes and prints it, where \<open>now\<close> is the clock
  read when the tokens are saved; when \<open>s\<close> is an integer \<open>k\<close> and \<open>k\<close>, \<open>k * 1000\<close>, \<open>now\<close>
  and \<open>now + k * 1000\<close> are below \<open>2^53\<close> in magnitude, that string is the decimal numeral
  of \<open>now + k * 1000\<close>.
\<close>

theorem exchange_success_installs_token:
  assumes "ok response" and "json_body response = Some tokenResponse"
    and "access_token tokenResponse = t" and "expires_in tokenResponse = Some s"
    and "number_truthy s"
  shows "(case exchangeCodeForToken D (Resolved response) now code codeVerifier (this, b) of
            (result, this', b') \<Rightarrow>
              result = Inr True
              \<and> isAuthenticated this'
              \<and> getAccessToken this' = Some t
              \<and> getItem (localStorage b') ''access_token'' = Some t
              \<and> getItem (localStorage b') ''token_expires_at''
                    = Some (number_toString D
                             (number_plus D (Integer now) (number_times D s (Integer 1000))))
              \<and> (s = Integer k \<and> safe_integer k \<and> safe_integer (k * 1000)
                  \<and> safe_integer now \<and> safe_integer (now + k * 1000)
                  \<longrightarrow> getItem (localStorage b') ''token_expires_at''
                        = Some (Number_toString (now + k * 1000))))"
proof -
  have thousand: "safe_integer 1000"
    by (simp add: safe_integer_def)
  have exact: "number_toString D (number_plus D (Integer now) (number_times D s (Integer 1000)))
      = Number_toString (now + k * 1000)"
    if "s = Integer k" "safe_integer k" "safe_integer (k * 1000)" "safe_integer now"
      "safe_integer (now + k * 1000)"
    using that thousand by (simp add: number_toString_def number_plus_def number_times_def)
  show ?thesis
    using assms exact
    by (simp add: exchangeCodeForToken_def saveTokensToStorage_def Let_def truthy_def
        storage_defs isAuthenticated_def getAccessToken_def split: option.splits)
qed

theorem exchange_success_installs_token_witness:
  "ok (success (Some (Integer 3600)))
   \<and> number_truthy (Integer 3600)
   \<and> safe_integer 3600 \<and> safe_integer (3600 * 1000) \<and> safe_integer 1000
   \<and> safe_integer (1000 + 3600 * 1000)
   \<and> (case exchangeCodeForToken no_doubles (Resolved (success (Some (Integer 3600)))) 1000
              ''code1'' ''verifier1'' (fresh_client, fresh_browser) of
         (result, this', b') \<Rightarrow>
           result = Inr True
           \<and> isAuthenticated this'
           \<and> getAccessToken this' = Some ''abc''
           \<and> getItem (localStorage b') ''access_token'' = Some ''abc''
           \<and> getItem (localStorage b') ''token_expires_at'' = Some ''3601000'')"
proof -
  have h: "ok (success (Some (Integer 3600)))"
    by (simp add: ok_def success_def)
  have j: "json_body (success (Some (Integer 3600)))
             = Some \<lparr>access_token = ''abc'', token_type = ''Bearer'',
                      expires_in = Some (Integer 3600), refresh_token = None, scope = None\<rparr>"
    by (simp add: success_def)
  have t: "number_truthy (Integer 3600)"
    by (simp add: number_truthy_def)
  have safe: "safe_integer 3600" "safe_integer (3600 * 1000)" "safe_integer 1000"
    "safe_integer (1000 + 3600 * 1000)"
    by (simp_all add: safe_integer_def)
  have n: "Number_toString (1000 + 3600 * 1000) = ''3601000''"
    by (simp add: Number_toString_def nat_toString_eval)
  show ?thesis
    using h t safe n exchange_success_installs_token [OF h j _ _ t, where t = "''abc''"
        and k = 3600 and D = no_doubles and now = 1000 and code = "''code1''"
        and codeVerifier = "''verifier1''" and this = fresh_client and b = fresh_browser]
    by (auto split: prod.splits)
qed

text \<open>
  C10. After a successful exchange whose response has no \<open>refresh_token\<close>, the refresh
  token in memory is \<open>null\<close> while the entry \<open>refresh_token\<close> of \<open>localStorage\<close> is the
  one found before the exchange; and when the response has no \<open>expires_in\<close>, the entry
  \<open>token_expires_at\<close> is the one found before the exchange.
\<close>

theorem exchange_keeps_stale_entries:
  assumes "ok response" and "json_body response = Some tokenResponse"
  shows "(case exchangeCodeForToken D (Resolved response) now code codeVerifier (this, b) of
            (result, this', b') \<Rightarrow>
              result = Inr True
              \<and> (refresh_token tokenResponse = None \<longrightarrow>
                   refreshToken this' = None
                   \<and> getItem (localStorage b') ''refresh_token''
                       = getItem (localStorage b) ''refresh_token'')
              \<and> (expires_in tokenResponse = None \<longrightarrow>
                   getItem (localStorage b') ''token_expires_at''
                     = getItem (localStorage b) ''token_expires_at''))"
  using assms
  by (simp add: exchangeCodeForToken_def saveTokensToStorage_def Let_def truthy_def storage_defs
      split: option.splits)

theorem exchange_keeps_stale_entries_witness:
  "ok (success None)
   \<and> map_option refresh_token (json_body (success None)) = Some None
   \<and> map_option expires_in (json_body (success None)) = Some None
   \<and> (case exchangeCodeForToken no_doubles (Resolved (success None)) 5000 ''code1'' ''verifier1''
              (fresh_client\<lparr>accessToken := Some ''tok'', refreshToken := Some ''ref''\<rparr>,
               stored_session) of
         (result, this', b') \<Rightarrow>
           result = Inr True
           \<and> accessToken this' = Some ''abc''
           \<and> refreshToken this' = None
           \<and> getItem (localStorage b') ''access_token'' = Some ''abc''
           \<and> getItem (localStorage b') ''refresh_token'' = Some ''ref''
           \<and> getItem (localStorage b') ''token_expires_at'' = Some ''2000'')"
proof -
  have h: "ok (success None)"
    by (simp add: ok_def success_def)
  have j: "json_body (success None)
             = Some \<lparr>access_token = ''abc'', token_type = ''Bearer'', expires_in = None,
                      refresh_token = None, scope = None\<rparr>"
    by (simp add: success_def)
  have stored: "getItem (localStorage stored_session) ''refresh_token'' = Some ''ref''"
    "getItem (localStorage stored_session) ''token_expires_at'' = Some ''2000''"
    by (simp_all add: demo_defs getItem_def)
  have new: "accessToken (fst (snd (exchangeCodeForToken no_doubles (Resolved (success None)) 5000
               ''code1'' ''verifier1''
               (fresh_client\<lparr>accessToken := Some ''tok'', refreshToken := Some ''ref''\<rparr>,
                stored_session)))) = Some ''abc''"
    "getItem (localStorage (snd (snd (exchangeCodeForToken no_doubles (Resolved (success None)) 5000
               ''code1'' ''verifier1''
               (fresh_client\<lparr>accessToken := Some ''tok'', refreshToken := Some ''ref''\<rparr>,
                stored_session))))) ''access_token'' = Some ''abc''"
    by (simp_all add: exchangeCodeForToken_def saveTokensToStorage_def Let_def ok_def
        storage_defs demo_defs)
  show ?thesis
    using h j stored new
      exchange_keeps_stale_entries [OF h j, where D = no_doubles and now = 5000 and code = "''code1''"
        and codeVerifier = "''verifier1''"
        and this = "fresh_client\<lparr>accessToken := Some ''tok'', refreshToken := Some ''ref''\<rparr>"
        and b = stored_session]
    by (simp split: prod.splits)
qed

subsection \<open>parseInt reads what toString writes\<close>

lemma digit_char_decimal: "d < 10 \<Longrightarrow> digit_char d \<in> decimal_digits"
proof -
  assume "d < 10"
  then have "d \<in> {0, 1, 2, 3, 4, 5, 6, 7, 8, 9}" by auto
  then show ?thesis
    by (auto simp: digit_char_def decimal_digits_def)
qed

lemma digit_value_digit_char: "d < 10 \<Longrightarrow> digit_value (digit_char d) = Some d"
proof -
  assume "d < 10"
  then have "d \<in> {0, 1, 2, 3, 4, 5, 6, 7, 8, 9}" by auto
  then show ?thesis
    by (auto simp: digit_char_def digit_value_def)
qed

lemma decimal_digit_facts:
  assumes "c \<in> decimal_digits"
  shows "\<not> is_space c" "c \<noteq> CHR ''-''" "c \<noteq> CHR ''+''" "c \<noteq> CHR ''x''" "c \<noteq> CHR ''X''"
    "is_radix_digit 10 c"
  using assms by (auto simp: decimal_digits_def is_space_def is_radix_digit_def digit_value_def)

lemma nat_toString_decimal:
  "nat_toString 10 n \<noteq> [] \<and> set (nat_toString 10 n) \<subseteq> decimal_digits"
proof (induction "10 :: nat" n rule: nat_toString.induct)
  case (1 n)
  show ?case
  proof (cases "n < 10")
    case True
    then show ?thesis
      by (simp add: nat_toString.simps [of 10 n] digit_char_decimal)
  next
    case False
    then show ?thesis
      using 1 by (simp add: nat_toString.simps [of 10 n] digit_char_decimal)
  qed
qed

lemma digits_value_snoc:
  "digits_value R acc (cs @ [c])
     = digits_value R acc cs * R + (case digit_value c of None \<Rightarrow> 0 | Some d \<Rightarrow> d)"
  by (induction cs arbitrary: acc) simp_all

lemma digits_value_nat_toString: "digits_value 10 0 (nat_toString 10 n) = n"
proof (induction "10 :: nat" n rule: nat_toString.induct)
  case (1 n)
  show ?case
  proof (cases "n < 10")
    case True
    then show ?thesis
      by (simp add: nat_toString.simps [of 10 n] digit_value_digit_char)
  next
    case False
    then have "digits_value 10 0 (nat_toString 10 (n div 10)) = n div 10"
      using 1 by simp
    then show ?thesis
      using False
      by (simp add: nat_toString.simps [of 10 n] digits_value_snoc digit_value_digit_char)
  qed
qed

lemma parseInt_decimal:
  assumes "s \<noteq> []" and "set s \<subseteq> decimal_digits"
  shows "parseInt s = Some (int (digits_value 10 0 s))"
    and "parseInt (CHR ''-'' # s) = Some (- int (digits_value 10 0 s))"
proof -
  from assms obtain c cs where s: "s = c # cs" and c: "c \<in> decimal_digits"
    and cs: "set cs \<subseteq> decimal_digits"
    by (cases s) auto
  have all: "takeWhile (is_radix_digit 10) s = s"
    using assms decimal_digit_facts(6) by (auto simp: takeWhile_eq_all_conv)
  have no_prefix: "take 2 s \<noteq> ''0x''" "take 2 s \<noteq> ''0X''"
    using s cs decimal_digit_facts(4,5) by (cases cs; auto)+
  have no_space: "dropWhile is_space s = s"
    using s decimal_digit_facts(1) [OF c] by simp
  have no_sign: "take (Suc 0) s \<noteq> ''-''" "take (Suc 0) s \<noteq> ''+''"
    using s decimal_digit_facts(2,3) [OF c] by simp_all
  have minus: "dropWhile is_space (CHR ''-'' # s) = CHR ''-'' # s"
    by (simp add: is_space_def)
  have sign: "take 1 (CHR ''-'' # s) = ''-''" "drop 1 (CHR ''-'' # s) = s"
    by simp_all
  show "parseInt s = Some (int (digits_value 10 0 s))"
    unfolding parseInt_def Let_def no_space
    by (simp add: all no_prefix no_sign assms(1))
  show "parseInt (CHR ''-'' # s) = Some (- int (digits_value 10 0 s))"
    unfolding parseInt_def Let_def minus sign
    by (simp add: all no_prefix assms(1))
qed

text \<open>
  \<open>parseInt\<close> reads back the integer that \<open>toString\<close> wrote: an expiry entry that
  \<open>saveTokensToStorage\<close> computed exactly is the instant \<open>loadTokensFromStorage\<close>
  compares.
\<close>

lemma parseInt_Number_toString: "parseInt (Number_toString x) = Some x"
proof (cases "x < 0")
  case True
  then show ?thesis
    using parseInt_decimal(2) [of "nat_toString 10 (nat (- x))"] nat_toString_decimal
    by (simp add: Number_toString_def digits_value_nat_toString)
next
  case False
  then show ?thesis
    using parseInt_decimal(1) [of "nat_toString 10 (nat x)"] nat_toString_decimal
    by (simp add: Number_toString_def digits_value_nat_toString)
qed

subsection \<open>The constructor\<close>

text \<open>
  C4. The recorded expiry instant is what \<open>parseInt\<close> reads from the entry
  \<open>token_expires_at\<close>. If \<open>localStorage\<close> holds an access token and either has no
  expiry entry or one whose instant is not before \<open>now\<close>, the constructed client is
  authenticated with that access token, its refresh token is the stored one (or
  \<open>null\<close>), and \<open>localStorage\<close> is untouched. If the recorded instant is before \<open>now\<close>,
  the client is not authenticated and the three entries are removed.
\<close>

theorem constructor_loads_or_clears:
  "(case constructor cfg now b of (this', b') \<Rightarrow>
      (getItem (localStorage b) ''access_token'' = Some t
       \<and> (getItem (localStorage b) ''token_expires_at'' = None
          \<or> (getItem (localStorage b) ''token_expires_at'' = Some e
              \<and> parseInt e = Some x \<and> now \<le> x))
       \<longrightarrow> isAuthenticated this'
           \<and> getAccessToken this' = Some t
           \<and> refreshToken this' = getItem (localStorage b) ''refresh_token''
           \<and> localStorage b' = localStorage b)
    \<and> (getItem (localStorage b) ''token_expires_at'' = Some e
       \<and> parseInt e = Some x \<and> x < now
       \<longrightarrow> \<not> isAuthenticated this'
           \<and> getAccessToken this' = None
           \<and> refreshToken this' = None
           \<and> getItem (localStorage b') ''access_token'' = None
           \<and> getItem (localStorage b') ''refresh_token'' = None
           \<and> getItem (localStorage b') ''token_expires_at'' = None))"
  by (auto simp add: constructor_def loadTokensFromStorage_def logout_def Let_def
      isAuthenticated_def getAccessToken_def storage_defs greater_than_def parseInt_Nil
      split: option.splits)

theorem constructor_loads_or_clears_witness:
  "getItem (localStorage stored_session) ''access_token'' = Some ''tok''
   \<and> getItem (localStorage stored_session) ''token_expires_at'' = Some ''2000''
   \<and> parseInt ''2000'' = Some 2000
   \<and> (case constructor demo_config 1000 stored_session of (this', b') \<Rightarrow>
         isAuthenticated this' \<and> getAccessToken this' = Some ''tok''
         \<and> refreshToken this' = Some ''ref''
         \<and> localStorage b' = localStorage stored_session)
   \<and> (case constructor demo_config 3000 stored_session of (this', b') \<Rightarrow>
         \<not> isAuthenticated this' \<and> getAccessToken this' = None
         \<and> getItem (localStorage b') ''access_token'' = None
         \<and> getItem (localStorage b') ''refresh_token'' = None
         \<and> getItem (localStorage b') ''token_expires_at'' = None)
   \<and> getItem (localStorage (fresh_browser\<lparr>localStorage := [''access_token'' \<mapsto> ''tok'']\<rparr>))
        ''token_expires_at'' = None
   \<and> (case constructor demo_config 3000
              (fresh_browser\<lparr>localStorage := [''access_token'' \<mapsto> ''tok'']\<rparr>) of
         (this', b') \<Rightarrow>
           isAuthenticated this' \<and> getAccessToken this' = Some ''tok''
           \<and> refreshToken this' = None)"
proof -
  have stored: "getItem (localStorage stored_session) ''access_token'' = Some ''tok''"
    "getItem (localStorage stored_session) ''refresh_token'' = Some ''ref''"
    "getItem (localStorage stored_session) ''token_expires_at'' = Some ''2000''"
    by (simp_all add: demo_defs getItem_def)
  have plain: "getItem (localStorage (fresh_browser\<lparr>localStorage := [''access_token'' \<mapsto> ''tok'']\<rparr>))
        ''access_token'' = Some ''tok''"
    "getItem (localStorage (fresh_browser\<lparr>localStorage := [''access_token'' \<mapsto> ''tok'']\<rparr>))
        ''refresh_token'' = None"
    "getItem (localStorage (fresh_browser\<lparr>localStorage := [''access_token'' \<mapsto> ''tok'']\<rparr>))
        ''token_expires_at'' = None"
    by (simp_all add: getItem_def)
  show ?thesis
    using stored plain parseInt_2000
      constructor_loads_or_clears [where cfg = demo_config and now = 1000
        and b = stored_session and t = "''tok''" and e = "''2000''" and x = 2000]
      constructor_loads_or_clears [where cfg = demo_config and now = 3000
        and b = stored_session and t = "''tok''" and e = "''2000''" and x = 2000]
      constructor_loads_or_clears [where cfg = demo_config and now = 3000
        and b = "fresh_browser\<lparr>localStorage := [''access_token'' \<mapsto> ''tok'']\<rparr>"
        and t = "''tok''" and e = "''2000''" and x = 2000]
    by (simp split: prod.splits)
qed

subsection \<open>logout\<close>

text \<open>
  C5. From every state of the client and of the browser, after \<open>logout()\<close> the client
  is not authenticated, \<open>getAccessToken()\<close> is \<open>null\<close>, the refresh token in memory is
  \<open>null\<close>, and \<open>localStorage\<close> has no entry \<open>access_token\<close>, \<open>refresh_token\<close> or
  \<open>token_expires_at\<close>.
\<close>

theorem logout_clears_tokens:
  "(case logout (this, b) of (this', b') \<Rightarrow>
      \<not> isAuthenticated this'
      \<and> getAccessToken this' = None
      \<and> refreshToken this' = None
      \<and> getItem (localStorage b') ''access_token'' = None
      \<and> getItem (localStorage b') ''refresh_token'' = None
      \<and> getItem (localStorage b') ''token_expires_at'' = None)"
  by (simp add: logout_def Let_def isAuthenticated_def getAccessToken_def storage_defs)

subsection \<open>getTokenInfo\<close>

lemma split_on_no_separator: "sep \<notin> set s \<Longrightarrow> split_on sep s = [s]"
  by (induction s) auto

text \<open>
  No error reaches the caller; without a token the result is \<open>null\<close>; a token without a
  dot gives \<open>null\<close>; and when the payload is there and its decoding throws, the result is
  the object with the prefix of the token.
\<close>

lemma getTokenInfo_never_throws: "\<exists>r. getTokenInfo P this = Inr r"
  by (simp add: getTokenInfo_def Let_def split: option.splits sum.splits)

lemma getTokenInfo_no_token: "accessToken this = None \<Longrightarrow> getTokenInfo P this = Inr None"
  by (simp add: getTokenInfo_def)

lemma getTokenInfo_no_separator:
  "accessToken this = Some token \<Longrightarrow> CHR ''.'' \<notin> set token \<Longrightarrow> getTokenInfo P this = Inr None"
  by (simp add: getTokenInfo_def Let_def element_at_def split_on_no_separator)

lemma getTokenInfo_decode_failure:
  assumes "accessToken this = Some token" and "token \<noteq> []"
    and "element_at (split_on (CHR ''.'') token) 1 = Some p" and "p \<noteq> []"
    and "decodePayload P token p = Inl e"
  shows "getTokenInfo P this = Inr (Some (BasicInfo (take 20 token @ ''...'') ''Bearer''))"
  using assms by (simp add: getTokenInfo_def Let_def and_then_def)

text \<open>
  C9. The claim asks for the object with the prefix of the token whenever a token is held
  that is not of the three-segment form, and the comment in the \<open>catch\<close> block says the
  same of a token that is not a JWT. For the held token \<open>abc\<close>, which has no dot,
  \<open>split('.')[1]\<close> is \<open>undefined\<close>, nothing is thrown, and the result is \<open>null\<close>.
\<close>

theorem getTokenInfo_opaque_token:
  "getTokenInfo P (fresh_client\<lparr>accessToken := Some ''abc''\<rparr>) = Inr None
   \<and> getTokenInfo P (fresh_client\<lparr>accessToken := Some ''abc''\<rparr>)
       \<noteq> Inr (Some (BasicInfo ''abc...'' ''Bearer''))"
  by (simp add: getTokenInfo_def Let_def element_at_def)

end
